theory Spec2Isabelle
  imports Complex_Main
begin

section \<open>PerceptronJS: the three perceptrons\<close>

text \<open>
  The repository holds three JavaScript classes: \<^verbatim>\<open>BinaryPerceptron\<close>
  (src/js/binaryperceptron.js, the spec's ThresholdPerceptron), \<^verbatim>\<open>Perceptron\<close>
  (src/unnamed/part_000, the spec's CanonicalPerceptron) and \<^verbatim>\<open>MultiPerceptron\<close>
  (src/unnamed/part_001, the spec's MultiClassPerceptron).

  Conventions of the embedding.
  \<^item> A JavaScript number that holds a weight, an input, a score, the learning rate or the
    threshold is a value of a type \<open>'a\<close> of which only the operations are named:
    \<open>0\<close>, \<open>1\<close>, \<open>+\<close>, \<open>-\<close>, \<open>*\<close> and \<open><\<close> (the code's \<^verbatim>\<open>a > b\<close> is
    \<open>b < a\<close>). No law of arithmetic or order is assumed of them (only \<^verbatim>\<open>train\<close>,
    which compares its two flags 0 and 1, takes 0 and 1 to be different); a theorem that
    needs a law states it as a hypothesis on the values at hand. So the theorems hold for IEEE
    doubles with their rounding, overflow, infinities and NaN (the two zeros taken as one
    value: the code never divides, so their sign is never observed). The definitions
    perform the operations in the order of the source.
  \<^item> Counters and indices (\<^verbatim>\<open>numberFailed\<close>, \<^verbatim>\<open>iteration\<close>, \<^verbatim>\<open>maxIterations\<close>,
    class indices) are \<^typ>\<open>int\<close>; array lengths are \<^typ>\<open>nat\<close>.
  \<^item> Reading an array past its end gives \<^verbatim>\<open>undefined\<close>. A product with \<^verbatim>\<open>undefined\<close>
    is NaN whatever the other factor is: the functions that can reach such a read take the
    value of that product as their first parameter \<open>nan\<close>. Taking a property of
    \<^verbatim>\<open>undefined\<close>, or calling it, throws a TypeError.
  \<^item> An object is a record; a method takes the object and returns the outcome of the call
    paired with the object as the call leaves it, also when the call throws. A
    \<^verbatim>\<open>throw\<close> is an \<^verbatim>\<open>Inl\<close> outcome.
  \<^item> The rows of the weight matrix of \<^verbatim>\<open>MultiPerceptron\<close> are arrays that
    \<^verbatim>\<open>setWeights\<close> takes from its caller, and two rows can be one array: the matrix is a
    list of addresses, and the arrays are in a store.
  \<^item> Isabelle refuses constant names that end in an underscore, so the private members
    \<^verbatim>\<open>inputs_\<close>, \<^verbatim>\<open>getScore_\<close>, ... appear without it.
\<close>

datatype error =
    IllegalInputDimension         \<comment> \<open>\<^verbatim>\<open>throw 'Illegal input dimension'\<close>\<close>
  | InputExpectationMismatch      \<comment> \<open>\<^verbatim>\<open>throw 'Input and expectation mismatch'\<close>\<close>
  | CannotChangeWeightDimension   \<comment> \<open>\<^verbatim>\<open>throw 'Cannot change weight dimension'\<close>\<close>
  | TypeError                     \<comment> \<open>a property of \<^verbatim>\<open>undefined\<close> is read, or \<^verbatim>\<open>undefined\<close> is called\<close>
  | Thrown string                 \<comment> \<open>what a callback throws\<close>

subsection \<open>The loops over the weight vector and the input buffer\<close>

text \<open>
  \<^verbatim>\<open>getScore_\<close>: \<^verbatim>\<open>for (i = 0; i < weights.length; i++) score += weights[i] * inputs_[i]\<close>.
  The recursion walks both arrays from index 0 and carries the running score; the second
  equation is the read of \<^verbatim>\<open>inputs_[i]\<close> past the end of the buffer.
\<close>

fun getScore :: "('a :: {plus, times}) \<Rightarrow> 'a list \<Rightarrow> 'a list \<Rightarrow> 'a \<Rightarrow> 'a" where
  "getScore nan [] ins score = score"
| "getScore nan (w # ws) [] score = getScore nan ws [] (score + nan)"
| "getScore nan (w # ws) (x # xs) score = getScore nan ws xs (score + w * x)"

text \<open>
  \<^verbatim>\<open>setInput_\<close>: \<^verbatim>\<open>for (i = 1; i < inputs_.length; i++) inputs_[i] = input[i - 1]\<close>.
  Slot 0 (the bias) is not written; \<open>copyInput\<close> is the loop over the slots from 1 on.
  Every caller has tested that the input has one element for each of these slots. (On a
  shorter input the code would store \<^verbatim>\<open>undefined\<close>; the second equation stores what
  arithmetic makes of it.)
\<close>

fun copyInput :: "'a \<Rightarrow> 'a list \<Rightarrow> 'a list \<Rightarrow> 'a list" where
  "copyInput nan [] input = []"
| "copyInput nan (b # bs) [] = nan # copyInput nan bs []"
| "copyInput nan (b # bs) (x # xs) = x # copyInput nan bs xs"

definition setInput :: "'a \<Rightarrow> 'a list \<Rightarrow> 'a list \<Rightarrow> 'a list" where
  "setInput nan input buf = (case buf of [] \<Rightarrow> [] | b0 # bs \<Rightarrow> b0 # copyInput nan bs input)"

text \<open>
  \<^verbatim>\<open>updateWeights_(error)\<close>:
  \<^verbatim>\<open>for (i = 0; i < weights.length; i++) weights[i] += learningRate_ * error * inputs_[i]\<close>.
\<close>

fun updateWeights :: "('a :: {plus, times}) \<Rightarrow> 'a \<Rightarrow> 'a \<Rightarrow> 'a list \<Rightarrow> 'a list \<Rightarrow> 'a list" where
  "updateWeights nan lr err [] ins = []"
| "updateWeights nan lr err (w # ws) [] = (w + nan) # updateWeights nan lr err ws []"
| "updateWeights nan lr err (w # ws) (x # xs) =
     (w + lr * err * x) # updateWeights nan lr err ws xs"

subsection \<open>BinaryPerceptron and Perceptron\<close>

text \<open>
  The two files declare the same fields, and their constructors, \<^verbatim>\<open>getScore_\<close>,
  \<^verbatim>\<open>setInput_\<close>, \<^verbatim>\<open>updateWeights_\<close>, \<^verbatim>\<open>train\<close> and \<^verbatim>\<open>classify\<close> have the same text;
  one record and one definition of each serve both classes. They differ in
  \<^verbatim>\<open>trainSet\<close> (and \<^verbatim>\<open>Perceptron\<close> has no weight accessors).
\<close>

record 'a perceptron =
  inputs :: "'a list"
  inputWeights :: "'a list"
  learningRate :: 'a
  threshold :: 'a

text \<open>
  The constructor pushes \<^verbatim>\<open>inputDimension + 1\<close> zeros on both arrays and then sets
  \<^verbatim>\<open>inputs_[0] = 1.0\<close>. The dimension is a \<^typ>\<open>nat\<close>, so both arrays are non-empty.
\<close>

definition BinaryPerceptron :: "nat \<Rightarrow> ('a :: {zero, one}) \<Rightarrow> 'a \<Rightarrow> 'a perceptron" where
  "BinaryPerceptron inputDimension lr th =
     \<lparr> inputs = (replicate (inputDimension + 1) 0)[0 := 1],
       inputWeights = replicate (inputDimension + 1) 0,
       learningRate = lr,
       threshold = th \<rparr>"

definition Perceptron :: "nat \<Rightarrow> ('a :: {zero, one}) \<Rightarrow> 'a \<Rightarrow> 'a perceptron" where
  "Perceptron inputDimension lr th =
     \<lparr> inputs = (replicate (inputDimension + 1) 0)[0 := 1],
       inputWeights = replicate (inputDimension + 1) 0,
       learningRate = lr,
       threshold = th \<rparr>"

text \<open>
  \<^verbatim>\<open>getWeights\<close> returns a copy of the weight array. \<^verbatim>\<open>setWeights\<close> of
  \<^verbatim>\<open>BinaryPerceptron\<close> keeps the array of its caller as the weight array; no property
  below looks at that array after the call, and the record holds its value.
\<close>

definition getWeights :: "'a perceptron \<Rightarrow> 'a list" where
  "getWeights p = inputWeights p"

definition setWeights :: "'a perceptron \<Rightarrow> 'a list \<Rightarrow> (error + 'a list) \<times> 'a perceptron" where
  "setWeights p weights =
     (if length weights \<noteq> length (inputWeights p) then (Inl CannotChangeWeightDimension, p)
      else (Inr weights, p\<lparr>inputWeights := weights\<rparr>))"

text \<open>
  \<^verbatim>\<open>train\<close>. The test \<^verbatim>\<open>input.length != this.inputs_.length - 1\<close> is on lengths, so the
  subtraction is the one of \<^typ>\<open>int\<close>. \<^verbatim>\<open>expectedValue\<close> and \<^verbatim>\<open>result\<close> are the numbers
  0 and 1 of the code.
\<close>

definition train ::
  "('a :: {zero_neq_one, plus, minus, times, ord}) \<Rightarrow> 'a perceptron \<Rightarrow> 'a list \<Rightarrow> bool
     \<Rightarrow> (error + bool) \<times> 'a perceptron" where
  "train nan p input expected =
     (if int (length input) \<noteq> int (length (inputs p)) - 1 then (Inl IllegalInputDimension, p)
      else
        (let p1 = p\<lparr>inputs := setInput nan input (inputs p)\<rparr>;
             score = getScore nan (inputWeights p1) (inputs p1) 0;
             expectedValue = (if expected then 1 else 0);
             result = (if score > threshold p1 then 1 else 0)
         in
           if expectedValue = result then (Inr True, p1)
           else
             (Inr False,
              p1\<lparr>inputWeights :=
                   updateWeights nan (learningRate p1) (expectedValue - result)
                     (inputWeights p1) (inputs p1)\<rparr>)))"

definition classify ::
  "('a :: {zero, plus, times, ord}) \<Rightarrow> 'a perceptron \<Rightarrow> 'a list \<Rightarrow> (error + bool) \<times> 'a perceptron" where
  "classify nan p input =
     (if int (length input) \<noteq> int (length (inputs p)) - 1 then (Inl IllegalInputDimension, p)
      else
        (let p1 = p\<lparr>inputs := setInput nan input (inputs p)\<rparr>;
             score = getScore nan (inputWeights p1) (inputs p1) 0
         in (Inr (score > threshold p1), p1)))"

subsection \<open>trainSet of BinaryPerceptron and MultiPerceptron\<close>

text \<open>
  \<^verbatim>\<open>BinaryPerceptron.prototype.trainSet\<close> and \<^verbatim>\<open>MultiPerceptron.prototype.trainSet\<close>
  have the same text around \<^verbatim>\<open>this.train\<close>, so the two loops take the class's
  \<^verbatim>\<open>train\<close> as the parameter \<open>tr\<close>.

  The inner loop, \<^verbatim>\<open>for (i = 0; i < inputSet.length; i++) if (!this.train(inputSet[i],
  expectedSet[i])) numberFailed++\<close>, runs after the check that both sets have the same
  length, so it is a walk over the pairs of \<open>zip inputSet expectedSet\<close>. A throw of
  \<^verbatim>\<open>train\<close> leaves the loop with the object as \<^verbatim>\<open>train\<close> left it.
\<close>

fun trainPass ::
  "('s \<Rightarrow> 'x \<Rightarrow> 'e \<Rightarrow> (error + bool) \<times> 's) \<Rightarrow> ('x \<times> 'e) list \<Rightarrow> int \<Rightarrow> 's
     \<Rightarrow> (error + int) \<times> 's" where
  "trainPass tr [] numberFailed p = (Inr numberFailed, p)"
| "trainPass tr ((x, e) # rest) numberFailed p =
     (case tr p x e of
        (Inl err, p') \<Rightarrow> (Inl err, p')
      | (Inr passed, p') \<Rightarrow>
          trainPass tr rest (if \<not> passed then numberFailed + 1 else numberFailed) p')"

text \<open>
  The callback is whatever the caller passed as fourth argument. \<open>None\<close> is the missing
  argument: calling \<^verbatim>\<open>undefined\<close> throws a TypeError. Otherwise it is a function of its
  three arguments that can read and change the perceptron and a state \<open>'c\<close> of its own,
  and returns or throws. The two sets are values for the length of the call.
  The outer loop is \<^verbatim>\<open>while (numberFailed != 0 && iteration < maxIterations)\<close>.
\<close>

function trainSetLoop ::
  "('s \<Rightarrow> 'x \<Rightarrow> 'e \<Rightarrow> (error + bool) \<times> 's)
     \<Rightarrow> (int \<Rightarrow> int \<Rightarrow> int \<Rightarrow> 's \<Rightarrow> 'c \<Rightarrow> (error + unit) \<times> 's \<times> 'c) option
     \<Rightarrow> 'x list \<Rightarrow> 'e list \<Rightarrow> int \<Rightarrow> int \<Rightarrow> int \<Rightarrow> 's \<Rightarrow> 'c
     \<Rightarrow> (error + bool) \<times> 's \<times> 'c" where
  "trainSetLoop tr callback inputSet expectedSet maxIterations numberFailed iteration p c =
     (if numberFailed \<noteq> 0 \<and> iteration < maxIterations then
        (case trainPass tr (zip inputSet expectedSet) 0 p of
           (Inl err, p') \<Rightarrow> (Inl err, p', c)
         | (Inr failed, p') \<Rightarrow>
             (case callback of
                None \<Rightarrow> (Inl TypeError, p', c)
              | Some f \<Rightarrow>
                  (case f failed (int (length inputSet)) iteration p' c of
                     (Inl err, p'', c') \<Rightarrow> (Inl err, p'', c')
                   | (Inr u, p'', c') \<Rightarrow>
                       trainSetLoop tr callback inputSet expectedSet maxIterations failed
                         (iteration + 1) p'' c')))
      else (Inr (iteration \<noteq> maxIterations), p, c))"
  by pat_completeness auto
termination
  by (relation "measure (\<lambda>(tr, callback, inputSet, expectedSet, maxIterations, numberFailed,
        iteration, p, c). nat (maxIterations - iteration))") auto

declare trainSetLoop.simps [simp del]

definition trainSetWith ::
  "('s \<Rightarrow> 'x \<Rightarrow> 'e \<Rightarrow> (error + bool) \<times> 's) \<Rightarrow> 's \<Rightarrow> 'x list \<Rightarrow> 'e list \<Rightarrow> int
     \<Rightarrow> (int \<Rightarrow> int \<Rightarrow> int \<Rightarrow> 's \<Rightarrow> 'c \<Rightarrow> (error + unit) \<times> 's \<times> 'c) option \<Rightarrow> 'c
     \<Rightarrow> (error + bool) \<times> 's \<times> 'c" where
  "trainSetWith tr p inputSet expectedSet maxIterations callback c =
     (if length inputSet \<noteq> length expectedSet then (Inl InputExpectationMismatch, p, c)
      else trainSetLoop tr callback inputSet expectedSet maxIterations (- 1) 0 p c)"

definition BinaryPerceptron_trainSet ::
  "('a :: {zero_neq_one, plus, minus, times, ord}) \<Rightarrow> 'a perceptron \<Rightarrow> 'a list list \<Rightarrow> bool list
     \<Rightarrow> int
     \<Rightarrow> (int \<Rightarrow> int \<Rightarrow> int \<Rightarrow> 'a perceptron \<Rightarrow> 'c \<Rightarrow> (error + unit) \<times> 'a perceptron \<times> 'c) option
     \<Rightarrow> 'c \<Rightarrow> (error + bool) \<times> 'a perceptron \<times> 'c" where
  "BinaryPerceptron_trainSet nan = trainSetWith (train nan)"

subsection \<open>trainSet of Perceptron\<close>

text \<open>
  \<^verbatim>\<open>for (i = 0; i < inputSet.length; i++) allPassed = allPassed && this.train(inputSet[i],
  expectedSet[i])\<close>: \<^verbatim>\<open>&&\<close> evaluates its right operand only when the left one is true.
\<close>

fun andPass ::
  "('a :: {zero_neq_one, plus, minus, times, ord}) \<Rightarrow> ('a list \<times> bool) list \<Rightarrow> bool
     \<Rightarrow> 'a perceptron \<Rightarrow> (error + bool) \<times> 'a perceptron" where
  "andPass nan [] allPassed p = (Inr allPassed, p)"
| "andPass nan ((x, e) # rest) allPassed p =
     (if allPassed then
        (case train nan p x e of
           (Inl err, p') \<Rightarrow> (Inl err, p')
         | (Inr passed, p') \<Rightarrow> andPass nan rest passed p')
      else andPass nan rest False p)"

function Perceptron_trainSetLoop ::
  "('a :: {zero_neq_one, plus, minus, times, ord}) \<Rightarrow> 'a list list \<Rightarrow> bool list \<Rightarrow> int \<Rightarrow> bool
     \<Rightarrow> int \<Rightarrow> 'a perceptron \<Rightarrow> (error + bool) \<times> 'a perceptron" where
  "Perceptron_trainSetLoop nan inputSet expectedSet maxIterations allPassed iteration p =
     (if \<not> allPassed \<and> iteration < maxIterations then
        (case andPass nan (zip inputSet expectedSet) True p of
           (Inl err, p') \<Rightarrow> (Inl err, p')
         | (Inr allPassed', p') \<Rightarrow>
             Perceptron_trainSetLoop nan inputSet expectedSet maxIterations allPassed'
               (iteration + 1) p')
      else (Inr (iteration \<noteq> maxIterations), p))"
  by pat_completeness auto
termination
  by (relation "measure (\<lambda>(nan, inputSet, expectedSet, maxIterations, allPassed, iteration, p).
        nat (maxIterations - iteration))") auto

declare Perceptron_trainSetLoop.simps [simp del]

definition Perceptron_trainSet ::
  "('a :: {zero_neq_one, plus, minus, times, ord}) \<Rightarrow> 'a perceptron \<Rightarrow> 'a list list \<Rightarrow> bool list
     \<Rightarrow> int \<Rightarrow> (error + bool) \<times> 'a perceptron" where
  "Perceptron_trainSet nan p inputSet expectedSet maxIterations =
     (if length inputSet \<noteq> length expectedSet then (Inl InputExpectationMismatch, p)
      else Perceptron_trainSetLoop nan inputSet expectedSet maxIterations False 0 p)"

subsection \<open>MultiPerceptron\<close>

text \<open>
  \<^verbatim>\<open>inputWeights_\<close> is an array of row arrays. \<open>m_inputWeights\<close> holds the address of
  each row, and \<open>m_heap\<close> the array at each address: the rows of the object and the arrays
  its caller has made. The constructor makes \<open>classCount\<close> new rows, at the addresses
  \<open>0, ..., classCount - 1\<close>.
\<close>

record 'a multiPerceptron =
  m_inputs :: "'a list"
  m_inputWeights :: "nat list"
  m_heap :: "nat \<Rightarrow> 'a list"
  m_learningRate :: 'a

definition MultiPerceptron :: "nat \<Rightarrow> nat \<Rightarrow> ('a :: {zero, one}) \<Rightarrow> 'a multiPerceptron" where
  "MultiPerceptron inputDimension classCount lr =
     \<lparr> m_inputs = (replicate (inputDimension + 1) 0)[0 := 1],
       m_inputWeights = [0..<classCount],
       m_heap = (\<lambda>a. replicate (inputDimension + 1) 0),
       m_learningRate = lr \<rparr>"

text \<open>An array that the caller makes: it comes to be at an address of the store.\<close>

definition newArray :: "nat \<Rightarrow> 'a list \<Rightarrow> 'a multiPerceptron \<Rightarrow> 'a multiPerceptron" where
  "newArray a xs p = p\<lparr>m_heap := (m_heap p)(a := xs)\<rparr>"

text \<open>The rows of the matrix as values, class by class.\<close>

definition m_rows :: "'a multiPerceptron \<Rightarrow> 'a list list" where
  "m_rows p = map (m_heap p) (m_inputWeights p)"

text \<open>
  \<^verbatim>\<open>getScore_(classification)\<close> reads \<^verbatim>\<open>this.inputWeights_[classification].length\<close>
  first: a TypeError when there is no such row.
\<close>

definition m_getScore :: "('a :: {zero, plus, times}) \<Rightarrow> 'a multiPerceptron \<Rightarrow> nat \<Rightarrow> error + 'a" where
  "m_getScore nan p classification =
     (if classification < length (m_inputWeights p)
      then Inr (getScore nan (m_heap p (m_inputWeights p ! classification)) (m_inputs p) 0)
      else Inl TypeError)"

definition m_getWeights :: "'a multiPerceptron \<Rightarrow> nat list" where
  "m_getWeights p = m_inputWeights p"

text \<open>
  \<^verbatim>\<open>setWeights\<close>: \<^verbatim>\<open>if (weights.length != this.inputWeights_.length ||
  weights[0].length != this.inputWeights_[0].length) throw ...\<close>. When the first test is
  false and both matrices are empty, \<^verbatim>\<open>weights[0].length\<close> is a TypeError. The argument
  is the list of the addresses of the caller's rows; the object keeps these rows.
\<close>

definition m_setWeights ::
  "'a multiPerceptron \<Rightarrow> nat list \<Rightarrow> (error + nat list) \<times> 'a multiPerceptron" where
  "m_setWeights p weights =
     (if length weights \<noteq> length (m_inputWeights p) then (Inl CannotChangeWeightDimension, p)
      else
        (case weights of
           [] \<Rightarrow> (Inl TypeError, p)
         | w0 # ws \<Rightarrow>
             (case m_inputWeights p of
                [] \<Rightarrow> (Inl TypeError, p)
              | r0 # rs \<Rightarrow>
                  if length (m_heap p w0) \<noteq> length (m_heap p r0)
                  then (Inl CannotChangeWeightDimension, p)
                  else (Inr weights, p\<lparr>m_inputWeights := weights\<rparr>))))"

text \<open>
  \<^verbatim>\<open>punishWeights_\<close> and \<^verbatim>\<open>encourageWeights_\<close>: the loops over one row,
  \<^verbatim>\<open>weights[c][i] -= learningRate_ * inputs_[i]\<close> and the same with \<^verbatim>\<open>+=\<close>. They write
  into the row array, so every class that has this array as its row sees the change.
\<close>

fun punishRow :: "('a :: {minus, times}) \<Rightarrow> 'a \<Rightarrow> 'a list \<Rightarrow> 'a list \<Rightarrow> 'a list" where
  "punishRow nan lr [] ins = []"
| "punishRow nan lr (w # ws) [] = (w - nan) # punishRow nan lr ws []"
| "punishRow nan lr (w # ws) (x # xs) = (w - lr * x) # punishRow nan lr ws xs"

fun encourageRow :: "('a :: {plus, times}) \<Rightarrow> 'a \<Rightarrow> 'a list \<Rightarrow> 'a list \<Rightarrow> 'a list" where
  "encourageRow nan lr [] ins = []"
| "encourageRow nan lr (w # ws) [] = (w + nan) # encourageRow nan lr ws []"
| "encourageRow nan lr (w # ws) (x # xs) = (w + lr * x) # encourageRow nan lr ws xs"

definition punishWeights ::
  "('a :: {minus, times}) \<Rightarrow> 'a multiPerceptron \<Rightarrow> nat \<Rightarrow> (error + unit) \<times> 'a multiPerceptron" where
  "punishWeights nan p classification =
     (if classification < length (m_inputWeights p) then
        (let a = m_inputWeights p ! classification
         in (Inr (),
             p\<lparr>m_heap := (m_heap p)
                  (a := punishRow nan (m_learningRate p) (m_heap p a) (m_inputs p))\<rparr>))
      else (Inl TypeError, p))"

definition encourageWeights ::
  "('a :: {plus, times}) \<Rightarrow> 'a multiPerceptron \<Rightarrow> nat \<Rightarrow> (error + unit) \<times> 'a multiPerceptron" where
  "encourageWeights nan p classification =
     (if classification < length (m_inputWeights p) then
        (let a = m_inputWeights p ! classification
         in (Inr (),
             p\<lparr>m_heap := (m_heap p)
                  (a := encourageRow nan (m_learningRate p) (m_heap p a) (m_inputs p))\<rparr>))
      else (Inl TypeError, p))"

text \<open>
  The search for the winning class, shared by \<^verbatim>\<open>train\<close> and \<^verbatim>\<open>classify\<close>:
  \<^verbatim>\<open>for (i = 1; i < weights.length; i++) { score = getScore_(i); if (score > maxScore)
  { maxScore = score; maxScoreClassification = i; } }\<close>. \<open>maxScoreFrom\<close> is the loop over
  the rows from index \<open>i\<close> on.
\<close>

fun maxScoreFrom ::
  "('a :: {zero, plus, times, ord}) \<Rightarrow> (nat \<Rightarrow> 'a list) \<Rightarrow> nat list \<Rightarrow> 'a list \<Rightarrow> nat \<Rightarrow> 'a \<Rightarrow> nat
     \<Rightarrow> nat" where
  "maxScoreFrom nan heap [] ins i maxScore maxScoreClassification = maxScoreClassification"
| "maxScoreFrom nan heap (row # rows) ins i maxScore maxScoreClassification =
     (let score = getScore nan (heap row) ins 0
      in if score > maxScore then maxScoreFrom nan heap rows ins (i + 1) score i
         else maxScoreFrom nan heap rows ins (i + 1) maxScore maxScoreClassification)"

definition maxScoreClassification ::
  "('a :: {zero, plus, times, ord}) \<Rightarrow> 'a multiPerceptron \<Rightarrow> error + nat" where
  "maxScoreClassification nan p =
     (case m_getScore nan p 0 of
        Inl e \<Rightarrow> Inl e
      | Inr maxScore \<Rightarrow>
          Inr (maxScoreFrom nan (m_heap p) (drop 1 (m_inputWeights p)) (m_inputs p) 1 maxScore 0))"

text \<open>
  \<^verbatim>\<open>train\<close>. The expected class is a JavaScript number, here an \<^typ>\<open>int\<close>; when it is
  no index of a row, \<^verbatim>\<open>encourageWeights_\<close> throws the TypeError.
\<close>

definition m_train ::
  "('a :: {zero, plus, minus, times, ord}) \<Rightarrow> 'a multiPerceptron \<Rightarrow> 'a list \<Rightarrow> int
     \<Rightarrow> (error + bool) \<times> 'a multiPerceptron" where
  "m_train nan p input expected =
     (if int (length input) \<noteq> int (length (m_inputs p)) - 1 then (Inl IllegalInputDimension, p)
      else
        (let p1 = p\<lparr>m_inputs := setInput nan input (m_inputs p)\<rparr> in
           (case maxScoreClassification nan p1 of
              Inl e \<Rightarrow> (Inl e, p1)
            | Inr predicted \<Rightarrow>
                if expected = int predicted then (Inr True, p1)
                else if expected < 0 then (Inl TypeError, p1)
                else
                  (case encourageWeights nan p1 (nat expected) of
                     (Inl e, p2) \<Rightarrow> (Inl e, p2)
                   | (Inr u, p2) \<Rightarrow>
                       (case punishWeights nan p2 predicted of
                          (Inl e, p3) \<Rightarrow> (Inl e, p3)
                        | (Inr v, p3) \<Rightarrow> (Inr False, p3))))))"

definition m_classify ::
  "('a :: {zero, plus, times, ord}) \<Rightarrow> 'a multiPerceptron \<Rightarrow> 'a list
     \<Rightarrow> (error + nat) \<times> 'a multiPerceptron" where
  "m_classify nan p input =
     (if int (length input) \<noteq> int (length (m_inputs p)) - 1 then (Inl IllegalInputDimension, p)
      else
        (let p1 = p\<lparr>m_inputs := setInput nan input (m_inputs p)\<rparr> in
           (case maxScoreClassification nan p1 of
              Inl e \<Rightarrow> (Inl e, p1)
            | Inr predicted \<Rightarrow> (Inr predicted, p1))))"

definition MultiPerceptron_trainSet ::
  "('a :: {zero, plus, minus, times, ord}) \<Rightarrow> 'a multiPerceptron \<Rightarrow> 'a list list \<Rightarrow> int list
     \<Rightarrow> int
     \<Rightarrow> (int \<Rightarrow> int \<Rightarrow> int \<Rightarrow> 'a multiPerceptron \<Rightarrow> 'c
          \<Rightarrow> (error + unit) \<times> 'a multiPerceptron \<times> 'c) option
     \<Rightarrow> 'c \<Rightarrow> (error + bool) \<times> 'a multiPerceptron \<times> 'c" where
  "MultiPerceptron_trainSet nan = trainSetWith (m_train nan)"

section \<open>Notions used to state the properties\<close>

text \<open>
  The input dimension of an object is what \<^verbatim>\<open>train\<close> and \<^verbatim>\<open>classify\<close> compare the
  length of their argument with: \<^verbatim>\<open>this.inputs_.length - 1\<close>.
\<close>

definition inputDimension :: "'a perceptron \<Rightarrow> int" where
  "inputDimension p = int (length (inputs p)) - 1"

definition m_inputDimension :: "'a multiPerceptron \<Rightarrow> int" where
  "m_inputDimension p = int (length (m_inputs p)) - 1"

definition classCount :: "'a multiPerceptron \<Rightarrow> nat" where
  "classCount p = length (m_inputWeights p)"

text \<open>
  The shape the constructors build: a buffer that starts with the bias input 1, and as
  many weights (in every row, for at least one class) as the buffer has slots.
\<close>

definition wellFormed :: "('a :: one) perceptron \<Rightarrow> bool" where
  "wellFormed p \<longleftrightarrow>
     inputs p \<noteq> [] \<and> hd (inputs p) = 1 \<and> length (inputWeights p) = length (inputs p)"

definition m_wellFormed :: "('a :: one) multiPerceptron \<Rightarrow> bool" where
  "m_wellFormed p \<longleftrightarrow>
     m_inputs p \<noteq> [] \<and> hd (m_inputs p) = 1 \<and> m_inputWeights p \<noteq> [] \<and>
     list_all (\<lambda>a. length (m_heap p a) = length (m_inputs p)) (m_inputWeights p)"

text \<open>
  The score of a weight vector on a buffer: the products \<open>weight i * buffer i\<close>, added to
  0 from the first to the last. The score of a class is the score of its row.
\<close>

definition score :: "('a :: {zero, plus, times}) list \<Rightarrow> 'a list \<Rightarrow> 'a" where
  "score ws buf = foldl (+) 0 (map2 (*) ws buf)"

definition classScore :: "('a :: {zero, plus, times}) multiPerceptron \<Rightarrow> 'a list \<Rightarrow> nat \<Rightarrow> 'a" where
  "classScore p buf c = score (m_heap p (m_inputWeights p ! c)) buf"

text \<open>
  A set of numbers that \<open>\<le>\<close> orders totally, with \<open><\<close> as its strict part. A set of
  doubles is such a set unless NaN is in it.
\<close>

definition totallyOrdered :: "('a :: ord) set \<Rightarrow> bool" where
  "totallyOrdered S \<longleftrightarrow>
     (\<forall>a\<in>S. \<forall>b\<in>S. a \<le> b \<or> b \<le> a) \<and>
     (\<forall>a\<in>S. \<forall>b\<in>S. \<forall>c\<in>S. a \<le> b \<longrightarrow> b \<le> c \<longrightarrow> a \<le> c) \<and>
     (\<forall>a\<in>S. \<forall>b\<in>S. (a < b) = (a \<le> b \<and> \<not> b \<le> a))"

text \<open>
  The words of the specification about \<^verbatim>\<open>trainSet\<close>. A full pass trains on every example
  of the set, in order, each example on the object as the example before it left it, and
  counts the examples on which \<^verbatim>\<open>train\<close> does not return true. \<open>afterPasses n\<close> is the
  object after \<open>n\<close> full passes and \<open>failuresOfPass k\<close> the count of the pass that follows
  \<open>k\<close> passes.
\<close>

definition countTrain ::
  "('s \<Rightarrow> 'x \<Rightarrow> 'e \<Rightarrow> (error + bool) \<times> 's) \<Rightarrow> 's \<times> int \<Rightarrow> 'x \<times> 'e \<Rightarrow> 's \<times> int" where
  "countTrain tr state example =
     (snd (tr (fst state) (fst example) (snd example)),
      if fst (tr (fst state) (fst example) (snd example)) = Inr True then snd state
      else snd state + 1)"

definition fullPass ::
  "('s \<Rightarrow> 'x \<Rightarrow> 'e \<Rightarrow> (error + bool) \<times> 's) \<Rightarrow> ('x \<times> 'e) list \<Rightarrow> 's \<Rightarrow> 's \<times> int" where
  "fullPass tr examples p = foldl (countTrain tr) (p, 0) examples"

primrec afterPasses ::
  "('s \<Rightarrow> 'x \<Rightarrow> 'e \<Rightarrow> (error + bool) \<times> 's) \<Rightarrow> ('x \<times> 'e) list \<Rightarrow> nat \<Rightarrow> 's \<Rightarrow> 's" where
  "afterPasses tr examples 0 p = p"
| "afterPasses tr examples (Suc n) p = fst (fullPass tr examples (afterPasses tr examples n p))"

definition failuresOfPass ::
  "('s \<Rightarrow> 'x \<Rightarrow> 'e \<Rightarrow> (error + bool) \<times> 's) \<Rightarrow> ('x \<times> 'e) list \<Rightarrow> nat \<Rightarrow> 's \<Rightarrow> int" where
  "failuresOfPass tr examples k p = snd (fullPass tr examples (afterPasses tr examples k p))"

text \<open>
  A run of \<open>n\<close> passes from the object \<open>p\<close>. \<open>stopsAtFirstCleanPass\<close>: the run stays within
  the budget, no pass before the last one was free of failures, and a run that ends before
  the budget is used up ends with a pass free of failures. \<open>convergedWithin\<close>: some pass
  free of failures comes strictly before the last pass the budget allows.
\<close>

definition stopsAtFirstCleanPass ::
  "('s \<Rightarrow> 'x \<Rightarrow> 'e \<Rightarrow> (error + bool) \<times> 's) \<Rightarrow> ('x \<times> 'e) list \<Rightarrow> int \<Rightarrow> 's \<Rightarrow> nat \<Rightarrow> bool" where
  "stopsAtFirstCleanPass tr examples maxIterations p n \<longleftrightarrow>
     int n \<le> maxIterations \<and>
     (\<forall>k. Suc k < n \<longrightarrow> failuresOfPass tr examples k p \<noteq> 0) \<and>
     (int n < maxIterations \<longrightarrow> 0 < n \<and> failuresOfPass tr examples (n - 1) p = 0)"

definition convergedWithin ::
  "('s \<Rightarrow> 'x \<Rightarrow> 'e \<Rightarrow> (error + bool) \<times> 's) \<Rightarrow> ('x \<times> 'e) list \<Rightarrow> int \<Rightarrow> 's \<Rightarrow> bool" where
  "convergedWithin tr examples maxIterations p \<longleftrightarrow>
     (\<exists>k. int (Suc k) < maxIterations \<and> failuresOfPass tr examples k p = 0)"

text \<open>
  The number of passes that a budget of \<open>m\<close> passes allows from \<open>p\<close>, counted along the
  run: it stops after the first pass without a failure.
\<close>

primrec passesRun ::
  "('s \<Rightarrow> 'x \<Rightarrow> 'e \<Rightarrow> (error + bool) \<times> 's) \<Rightarrow> ('x \<times> 'e) list \<Rightarrow> nat \<Rightarrow> 's \<Rightarrow> nat" where
  "passesRun tr examples 0 p = 0"
| "passesRun tr examples (Suc m) p =
     (if snd (fullPass tr examples p) = 0 then 1
      else Suc (passesRun tr examples m (fst (fullPass tr examples p))))"


definition record_call ::
  "int \<Rightarrow> int \<Rightarrow> int \<Rightarrow> 's \<Rightarrow> (int \<times> int \<times> int) list
     \<Rightarrow> (error + unit) \<times> 's \<times> (int \<times> int \<times> int) list" where
  "record_call numberFailed setSize iteration p calls =
     (Inr (), p, calls @ [(numberFailed, setSize, iteration)])"

subsection \<open>Numbers with infinities and NaN\<close>

text \<open>
  One type of numbers on which the code can be run by evaluation: the reals, the two
  infinities and NaN, with the arithmetic and the comparisons that IEEE 754 gives to the
  infinities and to NaN. Finite results are not rounded: the type serves to run the code
  where every finite value that occurs is a small integer.
\<close>

datatype jsnum = Finite real | PosInf | NegInf | NaN

instantiation jsnum :: "{zero_neq_one, plus, minus, uminus, times, ord}"
begin

definition zero_jsnum :: jsnum where
  "zero_jsnum = Finite 0"

definition one_jsnum :: jsnum where
  "one_jsnum = Finite 1"

fun plus_jsnum :: "jsnum \<Rightarrow> jsnum \<Rightarrow> jsnum" where
  "plus_jsnum NaN b = NaN"
| "plus_jsnum a NaN = NaN"
| "plus_jsnum PosInf NegInf = NaN"
| "plus_jsnum NegInf PosInf = NaN"
| "plus_jsnum PosInf b = PosInf"
| "plus_jsnum a PosInf = PosInf"
| "plus_jsnum NegInf b = NegInf"
| "plus_jsnum a NegInf = NegInf"
| "plus_jsnum (Finite x) (Finite y) = Finite (x + y)"

fun uminus_jsnum :: "jsnum \<Rightarrow> jsnum" where
  "uminus_jsnum NaN = NaN"
| "uminus_jsnum PosInf = NegInf"
| "uminus_jsnum NegInf = PosInf"
| "uminus_jsnum (Finite x) = Finite (- x)"

definition minus_jsnum :: "jsnum \<Rightarrow> jsnum \<Rightarrow> jsnum" where
  "minus_jsnum a b = a + (- b)"

fun times_jsnum :: "jsnum \<Rightarrow> jsnum \<Rightarrow> jsnum" where
  "times_jsnum NaN b = NaN"
| "times_jsnum a NaN = NaN"
| "times_jsnum (Finite x) (Finite y) = Finite (x * y)"
| "times_jsnum (Finite x) PosInf = (if x = 0 then NaN else if 0 < x then PosInf else NegInf)"
| "times_jsnum (Finite x) NegInf = (if x = 0 then NaN else if 0 < x then NegInf else PosInf)"
| "times_jsnum PosInf (Finite y) = (if y = 0 then NaN else if 0 < y then PosInf else NegInf)"
| "times_jsnum NegInf (Finite y) = (if y = 0 then NaN else if 0 < y then NegInf else PosInf)"
| "times_jsnum PosInf PosInf = PosInf"
| "times_jsnum PosInf NegInf = NegInf"
| "times_jsnum NegInf PosInf = NegInf"
| "times_jsnum NegInf NegInf = PosInf"

fun less_jsnum :: "jsnum \<Rightarrow> jsnum \<Rightarrow> bool" where
  "less_jsnum NaN b = False"
| "less_jsnum a NaN = False"
| "less_jsnum (Finite x) (Finite y) = (x < y)"
| "less_jsnum a PosInf = (a \<noteq> PosInf)"
| "less_jsnum NegInf b = (b \<noteq> NegInf)"
| "less_jsnum PosInf b = False"
| "less_jsnum a NegInf = False"

definition less_eq_jsnum :: "jsnum \<Rightarrow> jsnum \<Rightarrow> bool" where
  "less_eq_jsnum a b \<longleftrightarrow> a < b \<or> (a = b \<and> a \<noteq> NaN)"

instance
  by standard (simp add: zero_jsnum_def one_jsnum_def)

end

section \<open>The loops in closed form\<close>

lemma getScore_foldl:
  "length ws \<le> length ins \<Longrightarrow> getScore nan ws ins s = foldl (+) s (map2 (*) ws ins)"
  by (induction nan ws ins s rule: getScore.induct) simp_all

lemma getScore_score:
  "length ws \<le> length ins \<Longrightarrow> getScore nan ws ins 0 = score ws ins"
  by (simp add: getScore_foldl score_def)

lemma copyInput_take:
  "length bs \<le> length input \<Longrightarrow> copyInput nan bs input = take (length bs) input"
  by (induction nan bs input rule: copyInput.induct) simp_all

lemma length_copyInput: "length (copyInput nan bs input) = length bs"
  by (induction nan bs input rule: copyInput.induct) simp_all

lemma length_setInput: "length (setInput nan input buf) = length buf"
  by (cases buf) (simp_all add: setInput_def length_copyInput)

lemma setInput_ok:
  "buf \<noteq> [] \<Longrightarrow> int (length input) = int (length buf) - 1 \<Longrightarrow>
     setInput nan input buf = hd buf # input"
  by (cases buf) (simp_all add: setInput_def copyInput_take)

lemma updateWeights_ok:
  "length ws \<le> length ins \<Longrightarrow>
     updateWeights nan lr err ws ins = map2 (\<lambda>w x. w + lr * err * x) ws ins"
  by (induction nan lr err ws ins rule: updateWeights.induct) simp_all

section \<open>BinaryPerceptron and Perceptron: one call\<close>

lemma train_char:
  assumes wf: "wellFormed p" and len: "int (length input) = inputDimension p"
  shows "train nan p input expected =
     (let buf = 1 # input;
          expectedValue = (if expected then 1 else 0);
          result = (if score (inputWeights p) buf > threshold p then 1 else 0)
      in if expectedValue = result then (Inr True, p\<lparr>inputs := buf\<rparr>)
         else (Inr False, p\<lparr>inputs := buf,
                 inputWeights := map2 (\<lambda>w x. w + learningRate p * (expectedValue - result) * x)
                                   (inputWeights p) buf\<rparr>))"
proof -
  from wf len have si: "setInput nan input (inputs p) = 1 # input"
    using setInput_ok [of "inputs p" input nan] by (simp add: wellFormed_def inputDimension_def)
  from wf len have l: "length (inputWeights p) \<le> length (1 # input)"
    by (simp add: wellFormed_def inputDimension_def)
  show ?thesis
    using len
    by (simp add: train_def inputDimension_def si getScore_score [OF l] updateWeights_ok [OF l]
          Let_def)
qed

lemma classify_char:
  assumes wf: "wellFormed p" and len: "int (length input) = inputDimension p"
  shows "classify nan p input =
     (Inr (score (inputWeights p) (1 # input) > threshold p), p\<lparr>inputs := 1 # input\<rparr>)"
proof -
  from wf len have si: "setInput nan input (inputs p) = 1 # input"
    using setInput_ok [of "inputs p" input nan] by (simp add: wellFormed_def inputDimension_def)
  from wf len have l: "length (inputWeights p) \<le> length (1 # input)"
    by (simp add: wellFormed_def inputDimension_def)
  show ?thesis
    using len
    by (simp add: classify_def inputDimension_def si getScore_score [OF l] Let_def)
qed



lemma Perceptron_eq: "Perceptron d lr th = BinaryPerceptron d lr th"
  by (simp add: Perceptron_def BinaryPerceptron_def)

lemma train_returns:
  "int (length input) = inputDimension p \<Longrightarrow>
     \<exists>b q. train nan p input expected = (Inr b, q) \<and> inputDimension q = inputDimension p"
  by (auto simp add: train_def Let_def inputDimension_def length_setInput)

lemma train_shape:
  "wellFormed p \<Longrightarrow> wellFormed (snd (train nan p input expected)) \<and>
     inputDimension (snd (train nan p input expected)) = inputDimension p"
proof (cases "int (length input) = inputDimension p")
  case True
  assume wf: "wellFormed p"
  then have "length (inputWeights p) = length (1 # input)"
    and "length (inputs p) = length (1 # input)"
    using True by (simp_all add: wellFormed_def inputDimension_def)
  then show ?thesis
    unfolding train_char [OF wf True]
    by (simp add: Let_def wellFormed_def inputDimension_def)
next
  case False
  assume "wellFormed p"
  with False show ?thesis by (simp add: train_def inputDimension_def)
qed

lemma classify_shape:
  "wellFormed p \<Longrightarrow> wellFormed (snd (classify nan p input)) \<and>
     inputDimension (snd (classify nan p input)) = inputDimension p"
proof (cases "int (length input) = inputDimension p")
  case True
  assume "wellFormed p"
  with True show ?thesis
    by (simp add: classify_char) (simp add: wellFormed_def inputDimension_def)
next
  case False
  assume "wellFormed p"
  with False show ?thesis by (simp add: classify_def inputDimension_def)
qed

lemma setWeights_shape:
  "wellFormed p \<Longrightarrow> wellFormed (snd (setWeights p weights)) \<and>
     inputDimension (snd (setWeights p weights)) = inputDimension p"
  by (simp add: setWeights_def wellFormed_def inputDimension_def)

section \<open>Single calls of the binary perceptrons\<close>

text \<open>
  Claim C5. On a well-formed binary perceptron and an input of length inputDimension,
  \<^verbatim>\<open>train\<close> puts the input in the buffer behind the bias input 1 and computes the
  score of the buffer; \<open>predicted\<close> is 1 when the score is greater than the threshold
  and 0 otherwise, \<open>expectedValue\<close> is 1 when \<open>expected\<close> holds and 0 otherwise.
  When the two are equal, \<^verbatim>\<open>train\<close> returns true and no weight has changed.
  Otherwise one of them is 1 and the other is 0, so that the error factor
  \<open>expectedValue - predicted\<close> is \<open>1 - 0\<close> or \<open>0 - 1\<close> (that is 1 or -1 where these
  differences are 1 and -1, as they are for doubles); \<^verbatim>\<open>train\<close> returns false and
  every weight \<open>i\<close>, the bias weight too, becomes
  \<open>weight i + learningRate * (expectedValue - predicted) * buffer i\<close>. The sums and
  products are those of the numbers at hand, taken in the order of the code.
\<close>

theorem C5_train_rule:
  fixes p :: "('a :: {zero_neq_one, plus, minus, uminus, times, ord}) perceptron"
  assumes "wellFormed p" and "int (length input) = inputDimension p"
  shows "let buf = 1 # input;
             predicted = (if score (inputWeights p) buf > threshold p then 1 else 0 :: 'a);
             expectedValue = (if expected then 1 else 0 :: 'a)
         in (predicted = expectedValue \<longrightarrow>
               train nan p input expected = (Inr True, p\<lparr>inputs := buf\<rparr>)) \<and>
            (predicted \<noteq> expectedValue \<longrightarrow>
               ((expectedValue = 1 \<and> predicted = 0) \<or> (expectedValue = 0 \<and> predicted = 1)) \<and>
               ((1 :: 'a) - 0 = 1 \<and> (0 :: 'a) - 1 = - 1 \<longrightarrow>
                  expectedValue - predicted = 1 \<or> expectedValue - predicted = - 1) \<and>
               (\<exists>ws. train nan p input expected =
                       (Inr False, p\<lparr>inputs := buf, inputWeights := ws\<rparr>) \<and>
                     length ws = length (inputWeights p) \<and>
                     (\<forall>i<length ws. ws ! i =
                        inputWeights p ! i + learningRate p * (expectedValue - predicted) * buf ! i)))"
proof -
  from assms have l: "length (inputWeights p) = length (1 # input)"
    by (simp add: wellFormed_def inputDimension_def)
  show ?thesis
    unfolding train_char [OF assms] Let_def
    using l by auto
qed

theorem C5_train_rule_witness:
  "wellFormed \<lparr>inputs = [Finite 1, Finite 0], inputWeights = [Finite 0, Finite 0],
               learningRate = Finite 1, threshold = Finite 0\<rparr> \<and>
   int (length [Finite 1]) =
     inputDimension \<lparr>inputs = [Finite 1, Finite 0], inputWeights = [Finite 0, Finite 0],
                      learningRate = Finite 1, threshold = Finite 0\<rparr> \<and>
   (1 :: jsnum) - 0 = 1 \<and> (0 :: jsnum) - 1 = - 1 \<and>
   train NaN \<lparr>inputs = [Finite 1, Finite 0], inputWeights = [Finite 0, Finite 0],
               learningRate = Finite 1, threshold = Finite 0\<rparr> [Finite 1] False =
     (Inr True, \<lparr>inputs = [Finite 1, Finite 1], inputWeights = [Finite 0, Finite 0],
                  learningRate = Finite 1, threshold = Finite 0\<rparr>) \<and>
   train NaN \<lparr>inputs = [Finite 1, Finite 0], inputWeights = [Finite 0, Finite 0],
               learningRate = Finite 1, threshold = Finite 0\<rparr> [Finite 1] True =
     (Inr False, \<lparr>inputs = [Finite 1, Finite 1], inputWeights = [Finite 1, Finite 1],
                   learningRate = Finite 1, threshold = Finite 0\<rparr>)"
proof -
  let ?P = "\<lparr>inputs = [Finite 1, Finite 0], inputWeights = [Finite 0, Finite 0],
              learningRate = Finite 1, threshold = Finite 0\<rparr>"
  have wf: "wellFormed ?P" by (simp add: wellFormed_def one_jsnum_def)
  have len: "int (length [Finite 1]) = inputDimension ?P"
    by (simp add: inputDimension_def)
  have ar: "(1 :: jsnum) - 0 = 1 \<and> (0 :: jsnum) - 1 = - 1"
    by (simp add: zero_jsnum_def one_jsnum_def minus_jsnum_def)
  have sc: "score [Finite 0, Finite 0] [Finite 1, Finite 1] = Finite 0"
    by (simp add: score_def zero_jsnum_def)
  have a: "train NaN ?P [Finite 1] False =
     (Inr True, \<lparr>inputs = [Finite 1, Finite 1], inputWeights = [Finite 0, Finite 0],
                  learningRate = Finite 1, threshold = Finite 0\<rparr>)"
    using C5_train_rule [OF wf len, of False NaN] sc
    by (simp add: Let_def one_jsnum_def zero_jsnum_def)
  from C5_train_rule [OF wf len, of True NaN] sc
  obtain ws where t: "train NaN ?P [Finite 1] True =
            (Inr False, ?P\<lparr>inputs := [Finite 1, Finite 1], inputWeights := ws\<rparr>)"
    and l: "length ws = 2"
    and f: "\<forall>i<length ws. ws ! i = [Finite 0, Finite 0] ! i +
              Finite 1 * (Finite 1 - Finite 0) * [Finite 1, Finite 1] ! i"
    by (auto simp add: Let_def one_jsnum_def zero_jsnum_def)
  note g = f [unfolded l, rule_format]
  from g [of 0] g [of 1] have "ws ! 0 = Finite 1" and "ws ! 1 = Finite 1"
    by (simp_all add: minus_jsnum_def)
  with l have "ws = [Finite 1, Finite 1]"
    by (simp add: list_eq_iff_nth_eq less_Suc_eq numeral_2_eq_2)
  with t have b: "train NaN ?P [Finite 1] True =
     (Inr False, \<lparr>inputs = [Finite 1, Finite 1], inputWeights = [Finite 1, Finite 1],
                   learningRate = Finite 1, threshold = Finite 0\<rparr>)"
    by simp
  from wf len ar a b show ?thesis by (intro conjI) simp_all
qed





section \<open>Errors raised before any mutation\<close>

text \<open>
  Claim C6. In all three classes, \<^verbatim>\<open>train\<close> and \<^verbatim>\<open>classify\<close> on an input whose
  length differs from the input dimension throw 'Illegal input dimension', and
  \<^verbatim>\<open>trainSet\<close> on an input set and an expected set of different lengths throws 'Input
  and expectation mismatch'; in each case the object (weights and input buffer) and the
  callback's state are as they were before the call.
\<close>

theorem C6_errors_before_mutation:
  "(int (length input) \<noteq> inputDimension p \<longrightarrow>
      train nan p input expected = (Inl IllegalInputDimension, p) \<and>
      classify nan p input = (Inl IllegalInputDimension, p)) \<and>
   (int (length input) \<noteq> m_inputDimension q \<longrightarrow>
      m_train nan q input expectedClass = (Inl IllegalInputDimension, q) \<and>
      m_classify nan q input = (Inl IllegalInputDimension, q)) \<and>
   (length inputSet \<noteq> length expectedSet \<longrightarrow>
      BinaryPerceptron_trainSet nan p inputSet expectedSet maxIterations callback c =
        (Inl InputExpectationMismatch, p, c) \<and>
      Perceptron_trainSet nan p inputSet expectedSet maxIterations =
        (Inl InputExpectationMismatch, p)) \<and>
   (length inputSet \<noteq> length expectedClasses \<longrightarrow>
      MultiPerceptron_trainSet nan q inputSet expectedClasses maxIterations m_callback c =
        (Inl InputExpectationMismatch, q, c))"
  by (simp add: train_def classify_def m_train_def m_classify_def inputDimension_def
        m_inputDimension_def BinaryPerceptron_trainSet_def MultiPerceptron_trainSet_def
        trainSetWith_def Perceptron_trainSet_def)

theorem C6_errors_before_mutation_witness:
  "int (length [Finite 1]) \<noteq> inputDimension (BinaryPerceptron 2 (Finite 1) (Finite 0)) \<and>
   train NaN (BinaryPerceptron 2 (Finite 1) (Finite 0)) [Finite 1] True =
     (Inl IllegalInputDimension, BinaryPerceptron 2 (Finite 1) (Finite 0)) \<and>
   classify NaN (BinaryPerceptron 2 (Finite 1) (Finite 0)) [Finite 1] =
     (Inl IllegalInputDimension, BinaryPerceptron 2 (Finite 1) (Finite 0)) \<and>
   int (length [Finite 1]) \<noteq> m_inputDimension (MultiPerceptron 2 3 (Finite 1)) \<and>
   m_train NaN (MultiPerceptron 2 3 (Finite 1)) [Finite 1] 0 =
     (Inl IllegalInputDimension, MultiPerceptron 2 3 (Finite 1)) \<and>
   m_classify NaN (MultiPerceptron 2 3 (Finite 1)) [Finite 1] =
     (Inl IllegalInputDimension, MultiPerceptron 2 3 (Finite 1)) \<and>
   length [[Finite 1, Finite 2]] \<noteq> length ([] :: bool list) \<and>
   BinaryPerceptron_trainSet NaN (BinaryPerceptron 2 (Finite 1) (Finite 0))
       [[Finite 1, Finite 2]] [] 5 (Some record_call) [] =
     (Inl InputExpectationMismatch, BinaryPerceptron 2 (Finite 1) (Finite 0), []) \<and>
   Perceptron_trainSet NaN (BinaryPerceptron 2 (Finite 1) (Finite 0)) [[Finite 1, Finite 2]] [] 5 =
     (Inl InputExpectationMismatch, BinaryPerceptron 2 (Finite 1) (Finite 0)) \<and>
   length [[Finite 1, Finite 2]] \<noteq> length ([] :: int list) \<and>
   MultiPerceptron_trainSet NaN (MultiPerceptron 2 3 (Finite 1)) [[Finite 1, Finite 2]] [] 5
       (Some record_call) [] =
     (Inl InputExpectationMismatch, MultiPerceptron 2 3 (Finite 1), [])"
proof -
  have h1: "int (length [Finite 1]) \<noteq> inputDimension (BinaryPerceptron 2 (Finite 1) (Finite 0))"
    by (simp add: inputDimension_def BinaryPerceptron_def)
  have h2: "int (length [Finite 1]) \<noteq> m_inputDimension (MultiPerceptron 2 3 (Finite 1))"
    by (simp add: m_inputDimension_def MultiPerceptron_def)
  have h3: "length [[Finite 1, Finite 2]] \<noteq> length ([] :: bool list)" by simp
  have h4: "length [[Finite 1, Finite 2]] \<noteq> length ([] :: int list)" by simp
  from h1 h2 h3 h4
    C6_errors_before_mutation [where input = "[Finite 1]"
      and p = "BinaryPerceptron 2 (Finite 1) (Finite 0)"
      and expected = True and q = "MultiPerceptron 2 3 (Finite 1)" and expectedClass = 0
      and inputSet = "[[Finite 1, Finite 2]]" and expectedSet = "[]" and expectedClasses = "[]"
      and maxIterations = 5 and callback = "Some record_call" and m_callback = "Some record_call"
      and c = "[]" and nan = NaN]
  show ?thesis by blast
qed

section \<open>trainSet without a budget\<close>

text \<open>
  Claim C9. For each of the three classes and sets of equal length, \<^verbatim>\<open>trainSet\<close>
  with \<open>maxIterations \<le> 0\<close> runs no pass: the object is unchanged and the callback,
  present or not, is not called. It returns false when \<open>maxIterations\<close> is 0 and true
  when it is negative.
\<close>

theorem C9_no_budget:
  assumes "maxIterations \<le> 0"
    and "length inputSet = length expectedSet"
    and "length inputSet = length expectedClasses"
  shows "BinaryPerceptron_trainSet nan p inputSet expectedSet maxIterations callback c =
           (Inr (maxIterations < 0), p, c) \<and>
         Perceptron_trainSet nan p inputSet expectedSet maxIterations =
           (Inr (maxIterations < 0), p) \<and>
         MultiPerceptron_trainSet nan q inputSet expectedClasses maxIterations m_callback c =
           (Inr (maxIterations < 0), q, c)"
  using assms
  by (auto simp add: BinaryPerceptron_trainSet_def MultiPerceptron_trainSet_def
        trainSetWith_def Perceptron_trainSet_def trainSetLoop.simps
        Perceptron_trainSetLoop.simps)

theorem C9_no_budget_witness:
  "(0 :: int) \<le> 0 \<and> (- 3 :: int) \<le> 0 \<and>
   length [[Finite 1]] = length [True] \<and> length [[Finite 1]] = length [0 :: int] \<and>
   BinaryPerceptron_trainSet NaN (BinaryPerceptron 1 (Finite 1) (Finite 0)) [[Finite 1]] [True] 0
       (Some record_call) [] =
     (Inr False, BinaryPerceptron 1 (Finite 1) (Finite 0), []) \<and>
   Perceptron_trainSet NaN (Perceptron 1 (Finite 1) (Finite 0)) [[Finite 1]] [True] 0 =
     (Inr False, Perceptron 1 (Finite 1) (Finite 0)) \<and>
   MultiPerceptron_trainSet NaN (MultiPerceptron 1 2 (Finite 1)) [[Finite 1]] [0] 0
       (Some record_call) [] =
     (Inr False, MultiPerceptron 1 2 (Finite 1), []) \<and>
   BinaryPerceptron_trainSet NaN (BinaryPerceptron 1 (Finite 1) (Finite 0)) [[Finite 1]] [True]
       (- 3) (Some record_call) [] =
     (Inr True, BinaryPerceptron 1 (Finite 1) (Finite 0), []) \<and>
   Perceptron_trainSet NaN (Perceptron 1 (Finite 1) (Finite 0)) [[Finite 1]] [True] (- 3) =
     (Inr True, Perceptron 1 (Finite 1) (Finite 0)) \<and>
   MultiPerceptron_trainSet NaN (MultiPerceptron 1 2 (Finite 1)) [[Finite 1]] [0] (- 3)
       (Some record_call) [] =
     (Inr True, MultiPerceptron 1 2 (Finite 1), []) \<and>
   BinaryPerceptron_trainSet NaN (BinaryPerceptron 1 (Finite 1) (Finite 0)) [[Finite 1]] [True]
       (- 3) None () =
     (Inr True, BinaryPerceptron 1 (Finite 1) (Finite 0), ())"
proof -
  have z: "(0 :: int) \<le> 0" and n: "(- 3 :: int) \<le> 0" by simp_all
  have l1: "length [[Finite 1]] = length [True]" by simp
  have l2: "length [[Finite 1]] = length [0 :: int]" by simp
  from C9_no_budget [OF z l1 l2, where p = "BinaryPerceptron 1 (Finite 1) (Finite 0)"
         and callback = "Some record_call" and m_callback = "Some record_call"
         and c = "[]" and q = "MultiPerceptron 1 2 (Finite 1)" and nan = NaN]
       C9_no_budget [OF n l1 l2, where p = "BinaryPerceptron 1 (Finite 1) (Finite 0)"
         and callback = "Some record_call" and m_callback = "Some record_call"
         and c = "[]" and q = "MultiPerceptron 1 2 (Finite 1)" and nan = NaN]
       C9_no_budget [OF n l1 l2, where p = "BinaryPerceptron 1 (Finite 1) (Finite 0)"
         and callback = None and m_callback = None
         and c = "()" and q = "MultiPerceptron 1 2 (Finite 1)" and nan = NaN]
  show ?thesis by (simp add: Perceptron_eq)
qed

section \<open>The two trainSet loops of the binary perceptrons\<close>

text \<open>
  Claim C1. \<^verbatim>\<open>Perceptron.trainSet\<close> is to train on every example in each pass, as
  \<^verbatim>\<open>BinaryPerceptron.trainSet\<close> does, and to end with the same result and weights.
  The code skips the rest of a pass after the first failure. On the examples \<open>[1]\<close> and
  \<open>[-1]\<close>, both expected true, from a fresh perceptron of dimension 1 with learning
  rate 1 and threshold 0: with a budget of 1, \<^verbatim>\<open>BinaryPerceptron\<close> makes two updates
  and ends with the weights \<open>[2, 0]\<close>, \<^verbatim>\<open>Perceptron\<close> makes one and ends with
  \<open>[1, 1]\<close>; with a budget of 3, the first returns true and the second false.
\<close>

theorem C1_short_circuit_diverges:
  "BinaryPerceptron_trainSet NaN (BinaryPerceptron 1 (Finite 1) (Finite 0))
       [[Finite 1], [Finite (- 1)]] [True, True] 1 (Some record_call) [] =
     (Inr False,
      \<lparr>inputs = [Finite 1, Finite (- 1)], inputWeights = [Finite 2, Finite 0],
         learningRate = Finite 1, threshold = Finite 0\<rparr>,
      [(2, 2, 0)]) \<and>
   Perceptron_trainSet NaN (Perceptron 1 (Finite 1) (Finite 0))
       [[Finite 1], [Finite (- 1)]] [True, True] 1 =
     (Inr False,
      \<lparr>inputs = [Finite 1, Finite 1], inputWeights = [Finite 1, Finite 1],
         learningRate = Finite 1, threshold = Finite 0\<rparr>) \<and>
   fst (BinaryPerceptron_trainSet NaN (BinaryPerceptron 1 (Finite 1) (Finite 0))
       [[Finite 1], [Finite (- 1)]] [True, True] 3 (Some record_call) []) = Inr True \<and>
   fst (Perceptron_trainSet NaN (Perceptron 1 (Finite 1) (Finite 0))
       [[Finite 1], [Finite (- 1)]] [True, True] 3) = Inr False"
  by (simp add: BinaryPerceptron_trainSet_def trainSetWith_def trainSetLoop.simps
        Perceptron_trainSet_def Perceptron_trainSetLoop.simps BinaryPerceptron_def
        Perceptron_def train_def setInput_def record_call_def Let_def
        zero_jsnum_def one_jsnum_def minus_jsnum_def)

section \<open>MultiPerceptron: one call\<close>

lemma punishRow_ok:
  "length ws \<le> length ins \<Longrightarrow> punishRow nan lr ws ins = map2 (\<lambda>w x. w - lr * x) ws ins"
  by (induction nan lr ws ins rule: punishRow.induct) simp_all

lemma encourageRow_ok:
  "length ws \<le> length ins \<Longrightarrow> encourageRow nan lr ws ins = map2 (\<lambda>w x. w + lr * x) ws ins"
  by (induction nan lr ws ins rule: encourageRow.induct) simp_all

text \<open>What a total order gives to the comparisons of the search.\<close>

lemma totallyOrdered_refl: "totallyOrdered S \<Longrightarrow> a \<in> S \<Longrightarrow> a \<le> a"
  unfolding totallyOrdered_def by auto

lemma totallyOrdered_not_less:
  "totallyOrdered S \<Longrightarrow> a \<in> S \<Longrightarrow> b \<in> S \<Longrightarrow> \<not> b < a \<Longrightarrow> a \<le> b"
  unfolding totallyOrdered_def by blast

lemma totallyOrdered_less_imp_le:
  "totallyOrdered S \<Longrightarrow> a \<in> S \<Longrightarrow> b \<in> S \<Longrightarrow> a < b \<Longrightarrow> a \<le> b"
  unfolding totallyOrdered_def by blast

lemma totallyOrdered_le_less:
  "totallyOrdered S \<Longrightarrow> a \<in> S \<Longrightarrow> b \<in> S \<Longrightarrow> c \<in> S \<Longrightarrow> a \<le> b \<Longrightarrow> b < c \<Longrightarrow> a < c"
  unfolding totallyOrdered_def by blast

lemma totallyOrdered_less_trans:
  "totallyOrdered S \<Longrightarrow> a \<in> S \<Longrightarrow> b \<in> S \<Longrightarrow> c \<in> S \<Longrightarrow> a < b \<Longrightarrow> b < c \<Longrightarrow> a < c"
  unfolding totallyOrdered_def by blast

lemma totallyOrdered_le_trans:
  "totallyOrdered S \<Longrightarrow> a \<in> S \<Longrightarrow> b \<in> S \<Longrightarrow> c \<in> S \<Longrightarrow> a \<le> b \<Longrightarrow> b \<le> c \<Longrightarrow> a \<le> c"
  unfolding totallyOrdered_def by blast

lemma maxScoreFrom_bound:
  "maxScoreFrom nan heap rows ins i maxScore best = best \<or>
   (i \<le> maxScoreFrom nan heap rows ins i maxScore best \<and>
    maxScoreFrom nan heap rows ins i maxScore best < i + length rows)"
proof (induction rows arbitrary: i maxScore best)
  case Nil
  then show ?case by simp
next
  case (Cons row rows)
  show ?case
  proof (cases "getScore nan (heap row) ins 0 > maxScore")
    case True
    with Cons.IH [of "i + 1" "getScore nan (heap row) ins 0" i] show ?thesis
      by (auto simp add: Let_def)
  next
    case False
    with Cons.IH [of "i + 1" maxScore best] show ?thesis
      by (auto simp add: Let_def)
  qed
qed

lemma maxScoreFrom_char:
  fixes maxScore :: "'a :: {zero, plus, times, ord}"
  assumes ord: "totallyOrdered S"
  shows "\<forall>a\<in>set rows. getScore nan (heap a) ins 0 \<in> S \<Longrightarrow> maxScore \<in> S \<Longrightarrow>
     (maxScoreFrom nan heap rows ins i maxScore best = best \<and>
        (\<forall>j<length rows. getScore nan (heap (rows ! j)) ins 0 \<le> maxScore)) \<or>
     (\<exists>j<length rows. maxScoreFrom nan heap rows ins i maxScore best = i + j \<and>
        maxScore < getScore nan (heap (rows ! j)) ins 0 \<and>
        (\<forall>j'<j. getScore nan (heap (rows ! j')) ins 0 < getScore nan (heap (rows ! j)) ins 0) \<and>
        (\<forall>j'<length rows. getScore nan (heap (rows ! j')) ins 0
                              \<le> getScore nan (heap (rows ! j)) ins 0))"
proof (induction rows arbitrary: i maxScore best)
  case Nil
  then show ?case by simp
next
  case (Cons row rows)
  let ?f = "\<lambda>a. getScore nan (heap a) ins 0"
  let ?s = "?f row"
  from Cons.prems have sS: "?s \<in> S" and rest: "\<forall>a\<in>set rows. ?f a \<in> S"
    and mS: "maxScore \<in> S" by simp_all
  have inS: "?f (rows ! j) \<in> S" if "j < length rows" for j
    using rest that by simp
  show ?case
  proof (cases "?s > maxScore")
    case True
    then have res: "maxScoreFrom nan heap (row # rows) ins i maxScore best =
                    maxScoreFrom nan heap rows ins (i + 1) ?s i"
      by (simp add: Let_def)
    from Cons.IH [OF rest sS, of "i + 1" i]
    show ?thesis
    proof
      assume a: "maxScoreFrom nan heap rows ins (i + 1) ?s i = i \<and>
                 (\<forall>j<length rows. ?f (rows ! j) \<le> ?s)"
      have "\<forall>j'<length (row # rows). ?f ((row # rows) ! j') \<le> ?f ((row # rows) ! 0)"
      proof (intro allI impI)
        fix j' assume "j' < length (row # rows)"
        then show "?f ((row # rows) ! j') \<le> ?f ((row # rows) ! 0)"
          using a totallyOrdered_refl [OF ord sS] by (cases j') simp_all
      qed
      with a True res
      have "0 < length (row # rows) \<and>
            maxScoreFrom nan heap (row # rows) ins i maxScore best = i + 0 \<and>
            maxScore < ?f ((row # rows) ! 0) \<and>
            (\<forall>j'<0. ?f ((row # rows) ! j') < ?f ((row # rows) ! 0)) \<and>
            (\<forall>j'<length (row # rows). ?f ((row # rows) ! j') \<le> ?f ((row # rows) ! 0))"
        by simp
      then show ?thesis by - (rule disjI2, rule exI [of _ 0], assumption)
    next
      assume "\<exists>j<length rows. maxScoreFrom nan heap rows ins (i + 1) ?s i = i + 1 + j \<and>
                ?s < ?f (rows ! j) \<and>
                (\<forall>j'<j. ?f (rows ! j') < ?f (rows ! j)) \<and>
                (\<forall>j'<length rows. ?f (rows ! j') \<le> ?f (rows ! j))"
      then obtain j where j: "j < length rows"
        and k: "maxScoreFrom nan heap rows ins (i + 1) ?s i = i + 1 + j"
        and gt: "?s < ?f (rows ! j)"
        and before: "\<forall>j'<j. ?f (rows ! j') < ?f (rows ! j)"
        and all: "\<forall>j'<length rows. ?f (rows ! j') \<le> ?f (rows ! j)"
        by blast
      have jS: "?f (rows ! j) \<in> S" by (rule inS [OF j])
      have m: "maxScore < ?f (rows ! j)"
        by (rule totallyOrdered_less_trans [OF ord mS sS jS True gt])
      have sle: "?s \<le> ?f (rows ! j)"
        by (rule totallyOrdered_less_imp_le [OF ord sS jS gt])
      have b: "\<forall>j'<Suc j. ?f ((row # rows) ! j') < ?f ((row # rows) ! Suc j)"
      proof (intro allI impI)
        fix j' assume "j' < Suc j"
        then show "?f ((row # rows) ! j') < ?f ((row # rows) ! Suc j)"
          using gt before by (cases j') simp_all
      qed
      have c: "\<forall>j'<length (row # rows). ?f ((row # rows) ! j') \<le> ?f ((row # rows) ! Suc j)"
      proof (intro allI impI)
        fix j' assume "j' < length (row # rows)"
        then show "?f ((row # rows) ! j') \<le> ?f ((row # rows) ! Suc j)"
          using sle all by (cases j') simp_all
      qed
      from j k res m b c
      have "Suc j < length (row # rows) \<and>
            maxScoreFrom nan heap (row # rows) ins i maxScore best = i + Suc j \<and>
            maxScore < ?f ((row # rows) ! Suc j) \<and>
            (\<forall>j'<Suc j. ?f ((row # rows) ! j') < ?f ((row # rows) ! Suc j)) \<and>
            (\<forall>j'<length (row # rows). ?f ((row # rows) ! j') \<le> ?f ((row # rows) ! Suc j))"
        by simp
      then show ?thesis by - (rule disjI2, rule exI [of _ "Suc j"], assumption)
    qed
  next
    case False
    then have res: "maxScoreFrom nan heap (row # rows) ins i maxScore best =
                    maxScoreFrom nan heap rows ins (i + 1) maxScore best"
      by (simp add: Let_def)
    have sm: "?s \<le> maxScore"
      by (rule totallyOrdered_not_less [OF ord sS mS False])
    from Cons.IH [OF rest mS, of "i + 1" best]
    show ?thesis
    proof
      assume a: "maxScoreFrom nan heap rows ins (i + 1) maxScore best = best \<and>
                 (\<forall>j<length rows. ?f (rows ! j) \<le> maxScore)"
      have "\<forall>j<length (row # rows). ?f ((row # rows) ! j) \<le> maxScore"
      proof (intro allI impI)
        fix j assume "j < length (row # rows)"
        then show "?f ((row # rows) ! j) \<le> maxScore"
          using a sm by (cases j) simp_all
      qed
      with a res show ?thesis by simp
    next
      assume "\<exists>j<length rows. maxScoreFrom nan heap rows ins (i + 1) maxScore best = i + 1 + j \<and>
                maxScore < ?f (rows ! j) \<and>
                (\<forall>j'<j. ?f (rows ! j') < ?f (rows ! j)) \<and>
                (\<forall>j'<length rows. ?f (rows ! j') \<le> ?f (rows ! j))"
      then obtain j where j: "j < length rows"
        and k: "maxScoreFrom nan heap rows ins (i + 1) maxScore best = i + 1 + j"
        and gt: "maxScore < ?f (rows ! j)"
        and before: "\<forall>j'<j. ?f (rows ! j') < ?f (rows ! j)"
        and all: "\<forall>j'<length rows. ?f (rows ! j') \<le> ?f (rows ! j)"
        by blast
      have jS: "?f (rows ! j) \<in> S" by (rule inS [OF j])
      have slt: "?s < ?f (rows ! j)"
        by (rule totallyOrdered_le_less [OF ord sS mS jS sm gt])
      have sle: "?s \<le> ?f (rows ! j)"
        by (rule totallyOrdered_less_imp_le [OF ord sS jS slt])
      have b: "\<forall>j'<Suc j. ?f ((row # rows) ! j') < ?f ((row # rows) ! Suc j)"
      proof (intro allI impI)
        fix j' assume "j' < Suc j"
        then show "?f ((row # rows) ! j') < ?f ((row # rows) ! Suc j)"
          using slt before by (cases j') simp_all
      qed
      have c: "\<forall>j'<length (row # rows). ?f ((row # rows) ! j') \<le> ?f ((row # rows) ! Suc j)"
      proof (intro allI impI)
        fix j' assume "j' < length (row # rows)"
        then show "?f ((row # rows) ! j') \<le> ?f ((row # rows) ! Suc j)"
          using sle all by (cases j') simp_all
      qed
      from j k res gt b c
      have "Suc j < length (row # rows) \<and>
            maxScoreFrom nan heap (row # rows) ins i maxScore best = i + Suc j \<and>
            maxScore < ?f ((row # rows) ! Suc j) \<and>
            (\<forall>j'<Suc j. ?f ((row # rows) ! j') < ?f ((row # rows) ! Suc j)) \<and>
            (\<forall>j'<length (row # rows). ?f ((row # rows) ! j') \<le> ?f ((row # rows) ! Suc j))"
        by simp
      then show ?thesis by - (rule disjI2, rule exI [of _ "Suc j"], assumption)
    qed
  qed
qed

lemma maxScoreFrom_all_equal:
  fixes s :: "'a :: {zero, plus, times, ord}"
  assumes irr: "\<not> s < s"
  shows "\<forall>a\<in>set rows. getScore nan (heap a) ins 0 = s \<Longrightarrow>
           maxScoreFrom nan heap rows ins i s best = best"
  using irr by (induction rows arbitrary: i) (simp_all add: Let_def)

lemma maxScoreClassification_bound:
  assumes ne: "m_inputWeights p \<noteq> []"
  shows "\<exists>k. maxScoreClassification nan p = Inr k \<and> k < classCount p"
proof -
  from ne obtain r0 rest where w: "m_inputWeights p = r0 # rest"
    by (cases "m_inputWeights p") auto
  let ?s = "getScore nan (m_heap p r0) (m_inputs p) 0"
  let ?k = "maxScoreFrom nan (m_heap p) rest (m_inputs p) 1 ?s 0"
  have res: "maxScoreClassification nan p = Inr ?k"
    by (simp add: maxScoreClassification_def m_getScore_def w)
  from maxScoreFrom_bound [of nan "m_heap p" rest "m_inputs p" 1 ?s 0]
  have "?k < classCount p" using w by (auto simp add: classCount_def)
  with res show ?thesis by simp
qed

lemma maxScoreClassification_char:
  fixes p :: "('a :: {zero, plus, times, ord}) multiPerceptron"
  assumes ne: "m_inputWeights p \<noteq> []"
    and rows: "\<forall>a\<in>set (m_inputWeights p). length (m_heap p a) \<le> length (m_inputs p)"
    and ord: "totallyOrdered S"
    and inS: "\<forall>j<classCount p. classScore p (m_inputs p) j \<in> S"
  shows "\<exists>k. maxScoreClassification nan p = Inr k \<and> k < classCount p \<and>
           (\<forall>j<classCount p. classScore p (m_inputs p) j \<le> classScore p (m_inputs p) k) \<and>
           (\<forall>j<k. classScore p (m_inputs p) j < classScore p (m_inputs p) k)"
proof -
  from ne obtain r0 rest where w: "m_inputWeights p = r0 # rest"
    by (cases "m_inputWeights p") auto
  define f where "f = (\<lambda>a. getScore nan (m_heap p a) (m_inputs p) 0)"
  define g where "g = (\<lambda>j. classScore p (m_inputs p) j)"
  define k where "k = maxScoreFrom nan (m_heap p) rest (m_inputs p) 1 (f r0) 0"
  have cc: "classCount p = Suc (length rest)" using w by (simp add: classCount_def)
  have fg: "f ((r0 # rest) ! j) = g j" if "j < Suc (length rest)" for j
  proof -
    from that have "(r0 # rest) ! j \<in> set (m_inputWeights p)"
      unfolding w by (intro nth_mem) simp
    with rows have "length (m_heap p ((r0 # rest) ! j)) \<le> length (m_inputs p)" by blast
    from getScore_score [OF this, of nan] show ?thesis
      by (simp add: f_def g_def classScore_def w)
  qed
  have g0: "f r0 = g 0" using fg [of 0] by simp
  have gS: "f (rest ! j) = g (Suc j)" if "j < length rest" for j
    using fg [of "Suc j"] that by simp
  have inS': "g j \<in> S" if "j < Suc (length rest)" for j
    using inS that cc by (simp add: g_def)
  have restS: "\<forall>a\<in>set rest. getScore nan (m_heap p a) (m_inputs p) 0 \<in> S"
  proof
    fix a assume "a \<in> set rest"
    then obtain j where "j < length rest" "a = rest ! j" by (auto simp add: in_set_conv_nth)
    with gS [of j] inS' [of "Suc j"] show "getScore nan (m_heap p a) (m_inputs p) 0 \<in> S"
      by (simp add: f_def)
  qed
  have r0S: "getScore nan (m_heap p r0) (m_inputs p) 0 \<in> S"
    using g0 inS' [of 0] by (simp add: f_def)
  have res: "maxScoreClassification nan p = Inr k"
    by (simp add: maxScoreClassification_def m_getScore_def w k_def f_def)
  have alt: "(k = 0 \<and> (\<forall>j<length rest. f (rest ! j) \<le> f r0)) \<or>
     (\<exists>j<length rest. k = 1 + j \<and> f r0 < f (rest ! j) \<and>
        (\<forall>j'<j. f (rest ! j') < f (rest ! j)) \<and>
        (\<forall>j'<length rest. f (rest ! j') \<le> f (rest ! j)))"
    unfolding f_def k_def by (rule maxScoreFrom_char [OF ord restS r0S, of 1 0])
  have "k < Suc (length rest) \<and> (\<forall>j<Suc (length rest). g j \<le> g k) \<and> (\<forall>j<k. g j < g k)"
    using alt
  proof
    assume a: "k = 0 \<and> (\<forall>j<length rest. f (rest ! j) \<le> f r0)"
    have "\<forall>j<Suc (length rest). g j \<le> g 0"
    proof (intro allI impI)
      fix j assume j: "j < Suc (length rest)"
      show "g j \<le> g 0"
      proof (cases j)
        case 0
        with totallyOrdered_refl [OF ord inS' [of 0]] show ?thesis by simp
      next
        case (Suc j')
        with j have j': "j' < length rest" by simp
        with a have "f (rest ! j') \<le> f r0" by blast
        with gS [OF j'] g0 Suc show ?thesis by simp
      qed
    qed
    with a show ?thesis by simp
  next
    assume "\<exists>j<length rest. k = 1 + j \<and> f r0 < f (rest ! j) \<and>
        (\<forall>j'<j. f (rest ! j') < f (rest ! j)) \<and>
        (\<forall>j'<length rest. f (rest ! j') \<le> f (rest ! j))"
    then obtain j where j: "j < length rest" and kj: "k = Suc j"
      and gt: "f r0 < f (rest ! j)"
      and before: "\<forall>j'<j. f (rest ! j') < f (rest ! j)"
      and all: "\<forall>j'<length rest. f (rest ! j') \<le> f (rest ! j)"
      by auto
    have gk: "f (rest ! j) = g k" using gS [OF j] kj by simp
    have lt0: "g 0 < g k" using gt g0 gk by simp
    have le0: "g 0 \<le> g k"
      using totallyOrdered_less_imp_le [OF ord inS' [of 0] inS' [of k] lt0] j kj by simp
    have 1: "\<forall>i<Suc (length rest). g i \<le> g k"
    proof (intro allI impI)
      fix i assume i: "i < Suc (length rest)"
      show "g i \<le> g k"
      proof (cases i)
        case 0
        with le0 show ?thesis by simp
      next
        case (Suc i')
        with i have i': "i' < length rest" by simp
        with all have "f (rest ! i') \<le> f (rest ! j)" by blast
        with gS [OF i'] gk Suc show ?thesis by simp
      qed
    qed
    have 2: "\<forall>i<k. g i < g k"
    proof (intro allI impI)
      fix i assume i: "i < k"
      show "g i < g k"
      proof (cases i)
        case 0
        with lt0 show ?thesis by simp
      next
        case (Suc i')
        with i kj have i': "i' < j" by simp
        with j have l: "i' < length rest" by simp
        from before i' have "f (rest ! i') < f (rest ! j)" by blast
        with gS [OF l] gk Suc show ?thesis by simp
      qed
    qed
    from j kj 1 2 show ?thesis by simp
  qed
  with res show ?thesis unfolding cc g_def by (intro exI [of _ k] conjI) simp_all
qed

lemma m_setInput_ok:
  assumes wf: "m_wellFormed p" and len: "int (length input) = m_inputDimension p"
  shows "setInput nan input (m_inputs p) = 1 # input"
  using wf len setInput_ok [of "m_inputs p" input nan]
  by (simp add: m_wellFormed_def m_inputDimension_def)

lemma m_buffer_length:
  assumes wf: "m_wellFormed p" and len: "int (length input) = m_inputDimension p"
  shows "length (m_inputs p) = Suc (length input)"
  using wf len by (cases "m_inputs p") (simp_all add: m_wellFormed_def m_inputDimension_def)

lemma m_row_length:
  assumes wf: "m_wellFormed p" and len: "int (length input) = m_inputDimension p"
    and c: "c < classCount p"
  shows "length (m_heap p (m_inputWeights p ! c)) = Suc (length input)"
proof -
  from c have "m_inputWeights p ! c \<in> set (m_inputWeights p)" by (simp add: classCount_def)
  with wf have "length (m_heap p (m_inputWeights p ! c)) = length (m_inputs p)"
    by (simp add: m_wellFormed_def list_all_iff)
  with m_buffer_length [OF wf len] show ?thesis by simp
qed

text \<open>
  What \<^verbatim>\<open>classify\<close> returns on a well-formed object, when \<open>\<le>\<close> orders the scores of
  the classes totally.
\<close>

lemma m_predicted:
  fixes p :: "('a :: {zero, one, plus, times, ord}) multiPerceptron"
  assumes wf: "m_wellFormed p" and len: "int (length input) = m_inputDimension p"
    and ord: "totallyOrdered S"
    and inS: "\<forall>j<classCount p. classScore p (1 # input) j \<in> S"
  shows "\<exists>k. maxScoreClassification nan (p\<lparr>m_inputs := 1 # input\<rparr>) = Inr k \<and> k < classCount p \<and>
           (\<forall>j<classCount p. classScore p (1 # input) j \<le> classScore p (1 # input) k) \<and>
           (\<forall>j<k. classScore p (1 # input) j < classScore p (1 # input) k)"
proof -
  let ?p1 = "p\<lparr>m_inputs := 1 # input\<rparr>"
  from wf have ne: "m_inputWeights ?p1 \<noteq> []" by (simp add: m_wellFormed_def)
  have rows: "\<forall>a\<in>set (m_inputWeights ?p1). length (m_heap ?p1 a) \<le> length (m_inputs ?p1)"
    using wf m_buffer_length [OF wf len] by (simp add: m_wellFormed_def list_all_iff)
  have cs: "classScore ?p1 (m_inputs ?p1) = classScore p (1 # input)"
    by (rule ext) (simp add: classScore_def)
  have inS1: "\<forall>j<classCount ?p1. classScore ?p1 (m_inputs ?p1) j \<in> S"
    unfolding cs using inS by (simp add: classCount_def)
  from maxScoreClassification_char [OF ne rows ord inS1, of nan]
  show ?thesis unfolding cs by (simp add: classCount_def)
qed

lemma m_classify_char:
  assumes wf: "m_wellFormed p" and len: "int (length input) = m_inputDimension p"
  shows "\<exists>k. m_classify nan p input = (Inr k, p\<lparr>m_inputs := 1 # input\<rparr>) \<and> k < classCount p \<and>
           maxScoreClassification nan (p\<lparr>m_inputs := 1 # input\<rparr>) = Inr k"
proof -
  from wf have ne: "m_inputWeights (p\<lparr>m_inputs := 1 # input\<rparr>) \<noteq> []"
    by (simp add: m_wellFormed_def)
  from maxScoreClassification_bound [OF ne, of nan] obtain k
    where "maxScoreClassification nan (p\<lparr>m_inputs := 1 # input\<rparr>) = Inr k"
      and "k < classCount p" by (auto simp add: classCount_def)
  then show ?thesis
    using len by (simp add: m_classify_def m_setInput_ok [OF wf len] m_inputDimension_def)
qed

text \<open>
  \<^verbatim>\<open>train\<close> on a well-formed object: the store after a failed call. The row of the
  expected class is written first; the row of the predicted class is read after that.
\<close>

lemma m_train_char:
  assumes wf: "m_wellFormed p" and len: "int (length input) = m_inputDimension p"
    and pr: "maxScoreClassification nan (p\<lparr>m_inputs := 1 # input\<rparr>) = Inr predicted"
    and k: "predicted < classCount p"
    and ex: "0 \<le> expected" "nat expected < classCount p"
  shows "m_train nan p input expected =
     (if expected = int predicted then (Inr True, p\<lparr>m_inputs := 1 # input\<rparr>)
      else
        (let ae = m_inputWeights p ! nat expected;
             ak = m_inputWeights p ! predicted;
             h1 = (m_heap p)(ae := map2 (\<lambda>w x. w + m_learningRate p * x) (m_heap p ae) (1 # input));
             h2 = h1(ak := map2 (\<lambda>w x. w - m_learningRate p * x) (h1 ak) (1 # input))
         in (Inr False, p\<lparr>m_inputs := 1 # input, m_heap := h2\<rparr>)))"
proof (cases "expected = int predicted")
  case True
  with pr len show ?thesis
    by (simp add: m_train_def m_setInput_ok [OF wf len] m_inputDimension_def)
next
  case False
  let ?p1 = "p\<lparr>m_inputs := 1 # input\<rparr>"
  let ?ae = "m_inputWeights p ! nat expected"
  let ?ak = "m_inputWeights p ! predicted"
  let ?h1 = "(m_heap p)(?ae := map2 (\<lambda>w x. w + m_learningRate p * x) (m_heap p ?ae) (1 # input))"
  let ?h2 = "?h1(?ak := map2 (\<lambda>w x. w - m_learningRate p * x) (?h1 ?ak) (1 # input))"
  have le: "length (m_heap p ?ae) \<le> length (1 # input)"
    using m_row_length [OF wf len ex(2)] by simp
  have lk: "length (m_heap p ?ak) \<le> length (1 # input)"
    using m_row_length [OF wf len k] by simp
  have lk2: "length (map2 (\<lambda>w x. w + m_learningRate p * x) (m_heap p ?ae) (1 # input))
               \<le> length (1 # input)" by simp
  have enc: "encourageWeights nan ?p1 (nat expected) = (Inr (), ?p1\<lparr>m_heap := ?h1\<rparr>)"
    using ex by (simp add: encourageWeights_def classCount_def encourageRow_ok [OF le] Let_def)
  have pun: "punishWeights nan (?p1\<lparr>m_heap := ?h1\<rparr>) predicted =
               (Inr (), ?p1\<lparr>m_heap := ?h2\<rparr>)"
    using k
    by (simp add: punishWeights_def classCount_def punishRow_ok [OF lk] punishRow_ok [OF lk2]
          Let_def)
  from False ex pr len enc pun show ?thesis
    by (simp add: m_train_def m_setInput_ok [OF wf len] m_inputDimension_def Let_def)
qed

text \<open>
  \<^verbatim>\<open>train\<close> returns, and keeps the buffer's length and the rows' addresses, on every
  object with at least one class, when the input has the object's dimension and the
  expected class is the index of a row.
\<close>

lemma m_train_returns:
  assumes ne: "0 < classCount p" and len: "int (length input) = m_inputDimension p"
    and ex: "0 \<le> expected" "expected < int (classCount p)"
  shows "\<exists>b q. m_train nan p input expected = (Inr b, q) \<and>
           m_inputDimension q = m_inputDimension p \<and> classCount q = classCount p"
proof -
  let ?p1 = "p\<lparr>m_inputs := setInput nan input (m_inputs p)\<rparr>"
  from ne have ne1: "m_inputWeights ?p1 \<noteq> []" by (simp add: classCount_def)
  from maxScoreClassification_bound [OF ne1, of nan] obtain k
    where pr: "maxScoreClassification nan ?p1 = Inr k" and k: "k < classCount p"
    by (auto simp add: classCount_def)
  from ex have e: "nat expected < length (m_inputWeights p)" by (simp add: classCount_def)
  show ?thesis
    using len pr k e ex
    by (auto simp add: m_train_def Let_def m_inputDimension_def classCount_def length_setInput
          encourageWeights_def punishWeights_def)
qed

lemma m_wellFormed_MultiPerceptron: "0 < c \<Longrightarrow> m_wellFormed (MultiPerceptron d c lr)"
  by (simp add: m_wellFormed_def MultiPerceptron_def hd_conv_nth list_all_iff)

lemma m_inputDimension_MultiPerceptron: "m_inputDimension (MultiPerceptron d c lr) = int d"
  by (simp add: m_inputDimension_def MultiPerceptron_def)

lemma classCount_MultiPerceptron: "classCount (MultiPerceptron d c lr) = c"
  by (simp add: classCount_def MultiPerceptron_def)

section \<open>MultiPerceptron: classify, train and setWeights\<close>

text \<open>
  Claim C7. On a well-formed multi-class perceptron and an input of length inputDimension,
  when \<open>\<le>\<close> orders the scores of the classes totally (no score is NaN), \<^verbatim>\<open>classify\<close>
  returns a class \<open>k\<close> whose score is the maximum of the scores of the classes
  \<open>0..classCount-1\<close> and whose score is strictly greater than the score of every class
  before it: the smallest index that reaches the maximum. A freshly constructed instance
  with at least one class returns class 0 for every input of its dimension: all its rows
  have one score \<open>s\<close>, and \<open>s > s\<close> is false (of every double, NaN too).
\<close>

theorem C7_classify_first_maximum:
  fixes p :: "('a :: {zero, one, plus, times, ord}) multiPerceptron"
  shows
  "(m_wellFormed p \<and> int (length input) = m_inputDimension p \<and>
    totallyOrdered (classScore p (1 # input) ` {..<classCount p}) \<longrightarrow>
      (\<exists>k. m_classify nan p input = (Inr k, p\<lparr>m_inputs := 1 # input\<rparr>) \<and> k < classCount p \<and>
           (\<forall>j<classCount p. classScore p (1 # input) j \<le> classScore p (1 # input) k) \<and>
           (\<forall>j<k. classScore p (1 # input) j < classScore p (1 # input) k))) \<and>
   (0 < c \<and> length fresh_input = d \<and>
    \<not> score (replicate (d + 1) 0) (1 # fresh_input)
        < (score (replicate (d + 1) 0) (1 # fresh_input) :: 'a) \<longrightarrow>
      m_classify nan (MultiPerceptron d c lr) fresh_input =
        (Inr 0, (MultiPerceptron d c lr)\<lparr>m_inputs := 1 # fresh_input\<rparr>))"
proof (intro conjI impI)
  assume a: "m_wellFormed p \<and> int (length input) = m_inputDimension p \<and>
             totallyOrdered (classScore p (1 # input) ` {..<classCount p})"
  then have wf: "m_wellFormed p" and len: "int (length input) = m_inputDimension p"
    and ord: "totallyOrdered (classScore p (1 # input) ` {..<classCount p})"
    by simp_all
  have inS: "\<forall>j<classCount p. classScore p (1 # input) j
               \<in> classScore p (1 # input) ` {..<classCount p}" by simp
  from m_classify_char [OF wf len, of nan] obtain k
    where c: "m_classify nan p input = (Inr k, p\<lparr>m_inputs := 1 # input\<rparr>)"
      and m: "maxScoreClassification nan (p\<lparr>m_inputs := 1 # input\<rparr>) = Inr k" by blast
  from m_predicted [OF wf len ord inS, of nan] m
  have "k < classCount p \<and>
           (\<forall>j<classCount p. classScore p (1 # input) j \<le> classScore p (1 # input) k) \<and>
           (\<forall>j<k. classScore p (1 # input) j < classScore p (1 # input) k)"
    by auto
  with c show "\<exists>k. m_classify nan p input = (Inr k, p\<lparr>m_inputs := 1 # input\<rparr>) \<and>
           k < classCount p \<and>
           (\<forall>j<classCount p. classScore p (1 # input) j \<le> classScore p (1 # input) k) \<and>
           (\<forall>j<k. classScore p (1 # input) j < classScore p (1 # input) k)"
    by (intro exI [of _ k] conjI) simp_all
next
  let ?p = "MultiPerceptron d c lr"
  let ?buf = "1 # fresh_input"
  let ?s = "score (replicate (d + 1) 0) ?buf :: 'a"
  assume a: "0 < c \<and> length fresh_input = d \<and> \<not> ?s < ?s"
  then have irr: "\<not> ?s < ?s" by simp
  from a have wf: "m_wellFormed ?p" by (simp add: m_wellFormed_MultiPerceptron)
  from a have len: "int (length fresh_input) = m_inputDimension ?p"
    by (simp add: m_inputDimension_MultiPerceptron)
  have sc: "getScore nan (replicate (d + 1) 0) ?buf 0 = ?s"
    using a by (intro getScore_score) simp
  have all: "\<forall>a\<in>set (drop 1 [0..<c]). getScore nan ((\<lambda>a. replicate (d + 1) 0) a) ?buf 0 = ?s"
    using sc by simp
  have "maxScoreFrom nan (\<lambda>a. replicate (d + 1) 0) (drop 1 [0..<c]) ?buf 1 ?s 0 = 0"
    by (rule maxScoreFrom_all_equal [OF irr all])
  with a sc have "maxScoreClassification nan (?p\<lparr>m_inputs := ?buf\<rparr>) = Inr 0"
    by (simp add: maxScoreClassification_def m_getScore_def MultiPerceptron_def)
  with len show "m_classify nan ?p fresh_input = (Inr 0, ?p\<lparr>m_inputs := ?buf\<rparr>)"
    by (simp add: m_classify_def m_setInput_ok [OF wf len] m_inputDimension_def)
qed

theorem C7_classify_first_maximum_witness:
  "m_wellFormed
     \<lparr>m_inputs = [Finite 1, Finite 0], m_inputWeights = [0, 1, 2],
        m_heap = (\<lambda>a. [Finite 0, Finite 2])(0 := [Finite 0, Finite 1]), m_learningRate = Finite 1\<rparr> \<and>
   int (length [Finite 1]) = m_inputDimension
     \<lparr>m_inputs = [Finite 1, Finite 0], m_inputWeights = [0, 1, 2],
        m_heap = (\<lambda>a. [Finite 0, Finite 2])(0 := [Finite 0, Finite 1]), m_learningRate = Finite 1\<rparr> \<and>
   totallyOrdered (classScore
     \<lparr>m_inputs = [Finite 1, Finite 0], m_inputWeights = [0, 1, 2],
        m_heap = (\<lambda>a. [Finite 0, Finite 2])(0 := [Finite 0, Finite 1]), m_learningRate = Finite 1\<rparr>
     [1, Finite 1] ` {..<classCount
     \<lparr>m_inputs = [Finite 1, Finite 0], m_inputWeights = [0, 1, 2],
        m_heap = (\<lambda>a. [Finite 0, Finite 2])(0 := [Finite 0, Finite 1]), m_learningRate = Finite 1\<rparr>}) \<and>
   m_rows
     \<lparr>m_inputs = [Finite 1, Finite 0], m_inputWeights = [0, 1, 2],
        m_heap = (\<lambda>a. [Finite 0, Finite 2])(0 := [Finite 0, Finite 1]), m_learningRate = Finite 1\<rparr>
     = [[Finite 0, Finite 1], [Finite 0, Finite 2], [Finite 0, Finite 2]] \<and>
   fst (m_classify NaN
     \<lparr>m_inputs = [Finite 1, Finite 0], m_inputWeights = [0, 1, 2],
        m_heap = (\<lambda>a. [Finite 0, Finite 2])(0 := [Finite 0, Finite 1]), m_learningRate = Finite 1\<rparr>
     [Finite 1]) = Inr 1 \<and>
   (0 :: nat) < 3 \<and> length [PosInf, Finite (- 3)] = 2 \<and>
   score (replicate (2 + 1) 0) [1, PosInf, Finite (- 3)] = NaN \<and> \<not> NaN < NaN \<and>
   fst (m_classify NaN (MultiPerceptron 2 3 (Finite 1)) [PosInf, Finite (- 3)]) = Inr 0"
proof -
  let ?p = "\<lparr>m_inputs = [Finite 1, Finite 0], m_inputWeights = [0, 1, 2],
        m_heap = (\<lambda>a. [Finite 0, Finite 2])(0 := [Finite 0, Finite 1]), m_learningRate = Finite 1\<rparr>"
  let ?g = "classScore ?p [Finite 1, Finite 1]"
  have wf: "m_wellFormed ?p" by (simp add: m_wellFormed_def one_jsnum_def)
  have len: "int (length [Finite 1]) = m_inputDimension ?p" by (simp add: m_inputDimension_def)
  have rows: "m_rows ?p = [[Finite 0, Finite 1], [Finite 0, Finite 2], [Finite 0, Finite 2]]"
    by (simp add: m_rows_def)
  have g0: "?g 0 = Finite 1" and g1: "?g 1 = Finite 2" and g2: "?g 2 = Finite 2"
    by (simp_all add: classScore_def score_def zero_jsnum_def)
  have cc: "classCount ?p = 3" by (simp add: classCount_def)
  have img: "?g ` {..<classCount ?p} = {Finite 1, Finite 2}"
    unfolding cc using g0 g1 g2 by (auto simp add: lessThan_Suc eval_nat_numeral)
  have "totallyOrdered {Finite 1, Finite 2}"
    by (simp add: totallyOrdered_def less_eq_jsnum_def)
  with img have ord: "totallyOrdered (classScore ?p [1, Finite 1] ` {..<classCount ?p})"
    by (simp add: one_jsnum_def)
  have h: "(0 :: nat) < 3 \<and> length [PosInf, Finite (- 3)] = 2" by simp
  have s: "score (replicate (2 + 1) 0) [1, PosInf, Finite (- 3)] = NaN"
    by (simp add: score_def zero_jsnum_def one_jsnum_def eval_nat_numeral)
  have irr: "\<not> NaN < NaN" by simp
  from C7_classify_first_maximum [where p = ?p and input = "[Finite 1]" and c = 3
      and fresh_input = "[PosInf, Finite (- 3)]" and d = 2 and nan = NaN and lr = "Finite 1"]
    wf len ord h s irr
  obtain k where c: "m_classify NaN ?p [Finite 1] = (Inr k, ?p\<lparr>m_inputs := [1, Finite 1]\<rparr>)"
    and k: "k < classCount ?p"
    and mx: "\<forall>j<classCount ?p. ?g j \<le> ?g k"
    and fs: "\<forall>j<k. ?g j < ?g k"
    and fr: "m_classify NaN (MultiPerceptron 2 3 (Finite 1)) [PosInf, Finite (- 3)] =
               (Inr 0, (MultiPerceptron 2 3 (Finite 1))\<lparr>m_inputs := [1, PosInf, Finite (- 3)]\<rparr>)"
    unfolding one_jsnum_def by auto
  from k cc have "k = 0 \<or> k = 1 \<or> k = 2" by auto
  moreover have "k \<noteq> 0"
  proof
    assume "k = 0"
    with mx [rule_format, of 1] cc have "?g 1 \<le> ?g 0" by simp
    then show False unfolding g0 g1 by (simp add: less_eq_jsnum_def)
  qed
  moreover have "k \<noteq> 2"
  proof
    assume "k = 2"
    with fs [rule_format, of 1] have "?g 1 < ?g 2" by simp
    then show False unfolding g1 g2 by simp
  qed
  ultimately have "k = 1" by blast
  with c fr wf len ord rows h s irr show ?thesis by simp
qed

text \<open>
  A run where a score is NaN. After \<^verbatim>\<open>setWeights([[0, 0], [1, 1]])\<close> on
  \<^verbatim>\<open>new MultiPerceptron(1, 2, 1)\<close>, the input \<^verbatim>\<open>[Infinity]\<close> gives class 0 the score
  \<open>0 * 1 + 0 * Infinity\<close>, which is NaN, and class 1 the score Infinity. No comparison
  with NaN is true, so \<^verbatim>\<open>classify\<close> returns 0, and the score of class 1 is not at most
  the score of class 0.
\<close>

theorem C7_nan_score_counterexample:
  "m_rows (snd (m_setWeights
      (newArray 3 [Finite 1, Finite 1]
        (newArray 2 [Finite 0, Finite 0] (MultiPerceptron 1 2 (Finite 1)))) [2, 3])) =
     [[Finite 0, Finite 0], [Finite 1, Finite 1]] \<and>
   m_wellFormed (snd (m_setWeights
      (newArray 3 [Finite 1, Finite 1]
        (newArray 2 [Finite 0, Finite 0] (MultiPerceptron 1 2 (Finite 1)))) [2, 3])) \<and>
   int (length [PosInf]) = m_inputDimension (snd (m_setWeights
      (newArray 3 [Finite 1, Finite 1]
        (newArray 2 [Finite 0, Finite 0] (MultiPerceptron 1 2 (Finite 1)))) [2, 3])) \<and>
   fst (m_classify NaN (snd (m_setWeights
      (newArray 3 [Finite 1, Finite 1]
        (newArray 2 [Finite 0, Finite 0] (MultiPerceptron 1 2 (Finite 1)))) [2, 3])) [PosInf]) =
     Inr 0 \<and>
   classScore (snd (m_setWeights
      (newArray 3 [Finite 1, Finite 1]
        (newArray 2 [Finite 0, Finite 0] (MultiPerceptron 1 2 (Finite 1)))) [2, 3]))
      [1, PosInf] 0 = NaN \<and>
   classScore (snd (m_setWeights
      (newArray 3 [Finite 1, Finite 1]
        (newArray 2 [Finite 0, Finite 0] (MultiPerceptron 1 2 (Finite 1)))) [2, 3]))
      [1, PosInf] 1 = PosInf \<and>
   \<not> PosInf \<le> NaN"
proof -
  have fresh: "MultiPerceptron 1 2 (Finite 1) =
      \<lparr>m_inputs = [Finite 1, Finite 0], m_inputWeights = [0, 1],
         m_heap = (\<lambda>a. [Finite 0, Finite 0]), m_learningRate = Finite 1\<rparr>"
    by (simp add: MultiPerceptron_def zero_jsnum_def one_jsnum_def eval_nat_numeral upt_rec)
  show ?thesis
    unfolding fresh
    by (simp add: m_setWeights_def newArray_def m_rows_def m_wellFormed_def m_inputDimension_def
          m_classify_def setInput_def maxScoreClassification_def m_getScore_def
          classScore_def score_def less_eq_jsnum_def Let_def zero_jsnum_def one_jsnum_def)
qed

text \<open>
  Claim C8. When \<^verbatim>\<open>train\<close> of the multi-class perceptron misclassifies (the predicted
  class differs from the expected class, which is in range) and the rows of the matrix are
  different arrays, the row of the expected class becomes \<open>row i + learningRate * buffer i\<close>
  in every component \<open>i\<close>, the row of the predicted class becomes
  \<open>row i - learningRate * buffer i\<close>, the bias input \<open>buffer 0\<close> is 1, and every other row
  is as it was. The sums and products are those of the numbers at hand: the new row can be
  equal to the old one.
\<close>

theorem C8_update_locality:
  fixes p :: "('a :: {zero, one, plus, minus, times, ord}) multiPerceptron"
  assumes wf: "m_wellFormed p" and dist: "distinct (m_inputWeights p)"
    and len: "int (length input) = m_inputDimension p"
    and pr: "fst (m_classify nan p input) = Inr predicted"
    and ex: "0 \<le> expected" "nat expected < classCount p"
    and miss: "expected \<noteq> int predicted"
  shows "\<exists>q. m_train nan p input expected = (Inr False, q) \<and>
             m_inputs q = 1 # input \<and> (1 # input) ! 0 = 1 \<and>
             m_inputWeights q = m_inputWeights p \<and> m_learningRate q = m_learningRate p \<and>
             length (m_rows q ! nat expected) = length (1 # input) \<and>
             (\<forall>i<length (1 # input). m_rows q ! nat expected ! i =
                 m_rows p ! nat expected ! i + m_learningRate p * (1 # input) ! i) \<and>
             length (m_rows q ! predicted) = length (1 # input) \<and>
             (\<forall>i<length (1 # input). m_rows q ! predicted ! i =
                 m_rows p ! predicted ! i - m_learningRate p * (1 # input) ! i) \<and>
             (\<forall>c<classCount p. c \<noteq> nat expected \<longrightarrow> c \<noteq> predicted \<longrightarrow>
                 m_rows q ! c = m_rows p ! c)"
proof -
  let ?w = "m_inputWeights p" and ?buf = "1 # input" and ?lr = "m_learningRate p"
  let ?ae = "?w ! nat expected" and ?ak = "?w ! predicted"
  let ?E = "map2 (\<lambda>w x. w + ?lr * x) (m_heap p ?ae) ?buf"
  let ?h1 = "(m_heap p)(?ae := ?E)"
  let ?P = "map2 (\<lambda>w x. w - ?lr * x) (m_heap p ?ak) ?buf"
  let ?h2 = "?h1(?ak := ?P)"
  let ?q = "p\<lparr>m_inputs := ?buf, m_heap := ?h2\<rparr>"
  from m_classify_char [OF wf len, of nan] pr
  have mx: "maxScoreClassification nan (p\<lparr>m_inputs := ?buf\<rparr>) = Inr predicted"
    and k: "predicted < classCount p" by auto
  from miss ex have ne: "nat expected \<noteq> predicted" by auto
  from ex k have el: "nat expected < length ?w" and kl: "predicted < length ?w"
    by (simp_all add: classCount_def)
  from ne have ane: "?ae \<noteq> ?ak"
    using nth_eq_iff_index_eq [OF dist el kl] by simp
  have le: "length (m_heap p ?ae) = length ?buf"
    using m_row_length [OF wf len ex(2)] by simp
  have lp: "length (m_heap p ?ak) = length ?buf"
    using m_row_length [OF wf len k] by simp
  have tr: "m_train nan p input expected = (Inr False, ?q)"
    using m_train_char [OF wf len mx k ex] miss ane ane [symmetric] by (simp add: Let_def)
  have re: "m_rows ?q ! nat expected = ?E"
    using el ane by (simp add: m_rows_def)
  have rk: "m_rows ?q ! predicted = ?P"
    using kl by (simp add: m_rows_def)
  have pe: "m_rows p ! nat expected = m_heap p ?ae" using el by (simp add: m_rows_def)
  have pk: "m_rows p ! predicted = m_heap p ?ak" using kl by (simp add: m_rows_def)
  have 1: "length (m_rows ?q ! nat expected) = length ?buf" unfolding re using le by simp
  have 2: "\<forall>i<length ?buf. m_rows ?q ! nat expected ! i =
             m_rows p ! nat expected ! i + ?lr * ?buf ! i"
    unfolding re pe using le by simp
  have 3: "length (m_rows ?q ! predicted) = length ?buf" unfolding rk using lp by simp
  have 4: "\<forall>i<length ?buf. m_rows ?q ! predicted ! i =
             m_rows p ! predicted ! i - ?lr * ?buf ! i"
    unfolding rk pk using lp by simp
  have 5: "\<forall>c<classCount p. c \<noteq> nat expected \<longrightarrow> c \<noteq> predicted \<longrightarrow>
             m_rows ?q ! c = m_rows p ! c"
  proof (intro allI impI)
    fix c assume c: "c < classCount p" and ce: "c \<noteq> nat expected" and ck: "c \<noteq> predicted"
    from c have cl: "c < length ?w" by (simp add: classCount_def)
    from ce have "?w ! c \<noteq> ?ae" using nth_eq_iff_index_eq [OF dist cl el] by simp
    moreover from ck have "?w ! c \<noteq> ?ak" using nth_eq_iff_index_eq [OF dist cl kl] by simp
    ultimately show "m_rows ?q ! c = m_rows p ! c" using cl by (simp add: m_rows_def)
  qed
  have 0: "m_inputs ?q = ?buf \<and> ?buf ! 0 = 1 \<and> m_inputWeights ?q = ?w \<and>
           m_learningRate ?q = ?lr" by simp
  from tr 0 1 2 3 4 5 show ?thesis by (intro exI [of _ ?q]) simp
qed

theorem C8_update_locality_witness:
  "m_wellFormed (MultiPerceptron 1 3 (Finite 1)) \<and>
   distinct (m_inputWeights (MultiPerceptron 1 3 (Finite 1))) \<and>
   int (length [Finite 2]) = m_inputDimension (MultiPerceptron 1 3 (Finite 1)) \<and>
   fst (m_classify NaN (MultiPerceptron 1 3 (Finite 1)) [Finite 2]) = Inr 0 \<and>
   (0 :: int) \<le> 1 \<and> nat 1 < classCount (MultiPerceptron 1 3 (Finite 1)) \<and> (1 :: int) \<noteq> int 0 \<and>
   m_rows (MultiPerceptron 1 3 (Finite 1)) =
     [[Finite 0, Finite 0], [Finite 0, Finite 0], [Finite 0, Finite 0]] \<and>
   fst (m_train NaN (MultiPerceptron 1 3 (Finite 1)) [Finite 2] 1) = Inr False \<and>
   m_rows (snd (m_train NaN (MultiPerceptron 1 3 (Finite 1)) [Finite 2] 1)) ! 1 =
     [Finite 1, Finite 2] \<and>
   m_rows (snd (m_train NaN (MultiPerceptron 1 3 (Finite 1)) [Finite 2] 1)) ! 0 =
     [Finite (- 1), Finite (- 2)] \<and>
   m_rows (snd (m_train NaN (MultiPerceptron 1 3 (Finite 1)) [Finite 2] 1)) ! 2 =
     [Finite 0, Finite 0]"
proof -
  let ?p = "MultiPerceptron 1 3 (Finite 1) :: jsnum multiPerceptron"
  have fresh: "?p =
      \<lparr>m_inputs = [Finite 1, Finite 0], m_inputWeights = [0, 1, 2],
         m_heap = (\<lambda>a. [Finite 0, Finite 0]), m_learningRate = Finite 1\<rparr>"
    by (simp add: MultiPerceptron_def zero_jsnum_def one_jsnum_def eval_nat_numeral upt_rec)
  have rows: "m_rows ?p = [[Finite 0, Finite 0], [Finite 0, Finite 0], [Finite 0, Finite 0]]"
    and lr: "m_learningRate ?p = Finite 1"
    unfolding fresh by (simp_all add: m_rows_def)
  have wf: "m_wellFormed ?p" by (simp add: m_wellFormed_MultiPerceptron)
  have dist: "distinct (m_inputWeights ?p)" by (simp add: MultiPerceptron_def)
  have len: "int (length [Finite 2]) = m_inputDimension ?p"
    by (simp add: m_inputDimension_MultiPerceptron)
  have pr: "fst (m_classify NaN ?p [Finite 2]) = Inr 0"
    unfolding fresh
    by (simp add: m_classify_def setInput_def maxScoreClassification_def
          m_getScore_def Let_def zero_jsnum_def)
  have e1: "(0 :: int) \<le> 1" and e3: "(1 :: int) \<noteq> int 0" by simp_all
  have e2: "nat 1 < classCount ?p" by (simp add: classCount_MultiPerceptron)
  from C8_update_locality [OF wf dist len pr e1 e2 e3]
  obtain q where t: "m_train NaN ?p [Finite 2] 1 = (Inr False, q)"
    and l1: "length (m_rows q ! nat 1) = length [1, Finite 2]"
    and f1: "\<forall>i<length [1, Finite 2]. m_rows q ! nat 1 ! i =
               m_rows ?p ! nat 1 ! i + m_learningRate ?p * [1, Finite 2] ! i"
    and l0: "length (m_rows q ! 0) = length [1, Finite 2]"
    and f0: "\<forall>i<length [1, Finite 2]. m_rows q ! 0 ! i =
               m_rows ?p ! 0 ! i - m_learningRate ?p * [1, Finite 2] ! i"
    and oth: "\<forall>c<classCount ?p. c \<noteq> nat 1 \<longrightarrow> c \<noteq> 0 \<longrightarrow> m_rows q ! c = m_rows ?p ! c"
    by blast
  note g1 = f1 [unfolded rows lr, rule_format]
  from g1 [of 0] g1 [of 1] l1 have W1: "m_rows q ! 1 = [Finite 1, Finite 2]"
    by (simp add: list_eq_iff_nth_eq less_Suc_eq numeral_2_eq_2 one_jsnum_def)
  note g0 = f0 [unfolded rows lr, rule_format]
  from g0 [of 0] g0 [of 1] l0 have W0: "m_rows q ! 0 = [Finite (- 1), Finite (- 2)]"
    by (simp add: list_eq_iff_nth_eq less_Suc_eq numeral_2_eq_2 one_jsnum_def minus_jsnum_def)
  from oth [rule_format, of 2] have W2: "m_rows q ! 2 = [Finite 0, Finite 0]"
    unfolding rows by (simp add: classCount_MultiPerceptron)
  from wf dist len pr e1 e2 e3 rows t W1 W0 W2 show ?thesis by simp
qed

text \<open>
  Two runs of a failed \<^verbatim>\<open>train\<close> that do not change exactly two rows. After
  \<^verbatim>\<open>var a = [1, 0], b = [0, 0]; setWeights([a, b, b])\<close> on
  \<^verbatim>\<open>new MultiPerceptron(1, 3, 1)\<close>, \<^verbatim>\<open>train([1], 1)\<close> predicts class 0 and writes
  into \<^verbatim>\<open>b\<close>, which is the row of class 1 and of class 2: three rows change. With
  learning rate 0 on a fresh object, \<^verbatim>\<open>train([1], 1)\<close> fails and every row stays as it
  was.
\<close>

theorem C8_shared_row_counterexample:
  "m_rows (snd (m_setWeights
      (newArray 4 [Finite 0, Finite 0]
        (newArray 3 [Finite 1, Finite 0] (MultiPerceptron 1 3 (Finite 1)))) [3, 4, 4])) =
     [[Finite 1, Finite 0], [Finite 0, Finite 0], [Finite 0, Finite 0]] \<and>
   fst (m_classify NaN (snd (m_setWeights
      (newArray 4 [Finite 0, Finite 0]
        (newArray 3 [Finite 1, Finite 0] (MultiPerceptron 1 3 (Finite 1)))) [3, 4, 4]))
      [Finite 1]) = Inr 0 \<and>
   fst (m_train NaN (snd (m_setWeights
      (newArray 4 [Finite 0, Finite 0]
        (newArray 3 [Finite 1, Finite 0] (MultiPerceptron 1 3 (Finite 1)))) [3, 4, 4]))
      [Finite 1] 1) = Inr False \<and>
   m_rows (snd (m_train NaN (snd (m_setWeights
      (newArray 4 [Finite 0, Finite 0]
        (newArray 3 [Finite 1, Finite 0] (MultiPerceptron 1 3 (Finite 1)))) [3, 4, 4]))
      [Finite 1] 1)) =
     [[Finite 0, Finite (- 1)], [Finite 1, Finite 1], [Finite 1, Finite 1]] \<and>
   fst (m_train NaN (MultiPerceptron 1 2 (Finite 0)) [Finite 1] 1) = Inr False \<and>
   m_rows (MultiPerceptron 1 2 (Finite 0)) = [[Finite 0, Finite 0], [Finite 0, Finite 0]] \<and>
   m_rows (snd (m_train NaN (MultiPerceptron 1 2 (Finite 0)) [Finite 1] 1)) =
     [[Finite 0, Finite 0], [Finite 0, Finite 0]]"
proof -
  have fresh3: "MultiPerceptron 1 3 (Finite 1) =
      \<lparr>m_inputs = [Finite 1, Finite 0], m_inputWeights = [0, 1, 2],
         m_heap = (\<lambda>a. [Finite 0, Finite 0]), m_learningRate = Finite 1\<rparr>"
    by (simp add: MultiPerceptron_def zero_jsnum_def one_jsnum_def eval_nat_numeral upt_rec)
  have fresh2: "MultiPerceptron 1 2 (Finite 0) =
      \<lparr>m_inputs = [Finite 1, Finite 0], m_inputWeights = [0, 1],
         m_heap = (\<lambda>a. [Finite 0, Finite 0]), m_learningRate = Finite 0\<rparr>"
    by (simp add: MultiPerceptron_def zero_jsnum_def one_jsnum_def eval_nat_numeral upt_rec)
  show ?thesis
    unfolding fresh3 fresh2
    by (simp add: m_setWeights_def newArray_def m_rows_def m_train_def
          m_classify_def setInput_def maxScoreClassification_def m_getScore_def
          encourageWeights_def punishWeights_def Let_def zero_jsnum_def minus_jsnum_def)
qed

text \<open>
  What the check of \<^verbatim>\<open>setWeights\<close> covers: the number of rows and the length of
  row 0. The object keeps the caller's rows.
\<close>

lemma m_setWeights_checked:
  "(length weights \<noteq> classCount p \<longrightarrow>
      m_setWeights p weights = (Inl CannotChangeWeightDimension, p)) \<and>
   (length weights = classCount p \<and> 0 < classCount p \<and>
    length (m_heap p (weights ! 0)) \<noteq> length (m_heap p (m_inputWeights p ! 0)) \<longrightarrow>
      m_setWeights p weights = (Inl CannotChangeWeightDimension, p)) \<and>
   (length weights = classCount p \<and> 0 < classCount p \<and>
    length (m_heap p (weights ! 0)) = length (m_heap p (m_inputWeights p ! 0)) \<longrightarrow>
      m_setWeights p weights = (Inr weights, p\<lparr>m_inputWeights := weights\<rparr>) \<and>
      m_getWeights (snd (m_setWeights p weights)) = weights \<and>
      m_rows (snd (m_setWeights p weights)) = map (m_heap p) weights)"
  by (cases weights; cases "m_inputWeights p")
     (simp_all add: m_setWeights_def classCount_def m_getWeights_def m_rows_def)

text \<open>
  Claim C2. \<^verbatim>\<open>setWeights\<close> is to reject every matrix with a row whose length is not
  inputDimension + 1. The code compares only row 0: on a fresh perceptron of dimension 1
  with 2 classes, the matrix \<open>[[0, 0], [0]]\<close> (its rows are the caller's arrays, here at
  the addresses 2 and 3), whose second row has length 1, is accepted and becomes the
  stored weight matrix.
\<close>

theorem C2_ragged_matrix_accepted:
  "m_setWeights (newArray 3 [0] (newArray 2 [0, 0] (MultiPerceptron 1 2 lr))) [2, 3] =
     (Inr [2, 3],
      (newArray 3 [0] (newArray 2 [0, 0] (MultiPerceptron 1 2 lr)))\<lparr>m_inputWeights := [2, 3]\<rparr>) \<and>
   m_getWeights (snd (m_setWeights
      (newArray 3 [0] (newArray 2 [0, 0] (MultiPerceptron 1 2 lr))) [2, 3])) = [2, 3] \<and>
   m_rows (snd (m_setWeights
      (newArray 3 [0] (newArray 2 [0, 0] (MultiPerceptron 1 2 lr))) [2, 3])) = [[0, 0], [0]] \<and>
   m_inputs (snd (m_setWeights
      (newArray 3 [0] (newArray 2 [0, 0] (MultiPerceptron 1 2 lr))) [2, 3])) = [1, 0] \<and>
   m_rows (MultiPerceptron 1 2 lr) = [[0, 0], [0, 0]] \<and>
   int (length (m_rows (snd (m_setWeights
      (newArray 3 [0] (newArray 2 [0, 0] (MultiPerceptron 1 2 lr))) [2, 3])) ! 1))
     \<noteq> m_inputDimension (MultiPerceptron 1 2 lr) + 1"
  by (simp add: m_setWeights_def newArray_def MultiPerceptron_def m_getWeights_def m_rows_def
        m_inputDimension_def eval_nat_numeral upt_rec)

section \<open>trainSet with a callback: passes and budget\<close>

text \<open>
  The lemmas of this section hold for any \<open>tr\<close> that, on the examples of the set and on
  objects satisfying an invariant \<open>I\<close>, returns without a throw and keeps \<open>I\<close>. Under
  this condition the inner loop of the code is a full pass: it trains on every example in
  order and counts the calls that return false.
\<close>

lemma trainPass_foldl:
  assumes clean: "\<And>q x e. I q \<Longrightarrow> (x, e) \<in> set examples \<Longrightarrow> \<exists>b q'. tr q x e = (Inr b, q') \<and> I q'"
  shows "I p \<Longrightarrow> set rest \<subseteq> set examples \<Longrightarrow>
     trainPass tr rest nf p =
       (Inr (snd (foldl (countTrain tr) (p, nf) rest)), fst (foldl (countTrain tr) (p, nf) rest)) \<and>
     I (fst (foldl (countTrain tr) (p, nf) rest))"
proof (induction rest arbitrary: nf p)
  case Nil
  then show ?case by simp
next
  case (Cons a rest)
  obtain x e where a: "a = (x, e)" by (cases a)
  with Cons.prems have "(x, e) \<in> set examples" by simp
  from clean [OF Cons.prems(1) this] obtain b q' where t: "tr p x e = (Inr b, q')" and q': "I q'"
    by blast
  from Cons.prems have sub: "set rest \<subseteq> set examples" by simp
  have ct: "countTrain tr (p, nf) a = (q', if \<not> b then nf + 1 else nf)"
    using t a by (simp add: countTrain_def)
  from Cons.IH [OF q' sub, of "if \<not> b then nf + 1 else nf"] t a ct show ?case by simp
qed

lemma pass_ok:
  assumes clean: "\<And>q x e. I q \<Longrightarrow> (x, e) \<in> set examples \<Longrightarrow> \<exists>b q'. tr q x e = (Inr b, q') \<and> I q'"
    and p: "I p"
  shows "trainPass tr examples 0 p =
           (Inr (snd (fullPass tr examples p)), fst (fullPass tr examples p)) \<and>
         I (fst (fullPass tr examples p))"
  using trainPass_foldl [of I examples tr p examples 0, OF clean p]
  by (simp add: fullPass_def)

lemma afterPasses_shift:
  "afterPasses tr examples n (fst (fullPass tr examples p)) =
     fst (fullPass tr examples (afterPasses tr examples n p))"
  by (induction n) simp_all

lemma failuresOfPass_0: "failuresOfPass tr examples 0 p = snd (fullPass tr examples p)"
  by (simp add: failuresOfPass_def)

lemma failuresOfPass_Suc:
  "failuresOfPass tr examples (Suc k) p = failuresOfPass tr examples k (fst (fullPass tr examples p))"
  by (simp add: failuresOfPass_def afterPasses_shift)

lemma passesRun_le: "passesRun tr examples m p \<le> m"
  by (induction m arbitrary: p) (simp_all add: Suc_leI)

lemma passesRun_earlier:
  "Suc k < passesRun tr examples m p \<Longrightarrow> failuresOfPass tr examples k p \<noteq> 0"
proof (induction m arbitrary: k p)
  case 0
  then show ?case by simp
next
  case (Suc m)
  show ?case
  proof (cases "snd (fullPass tr examples p) = 0")
    case True
    with Suc.prems show ?thesis by simp
  next
    case False
    show ?thesis
    proof (cases k)
      case 0
      with False show ?thesis by (simp add: failuresOfPass_0)
    next
      case (Suc k')
      with Suc.prems False
      have "Suc k' < passesRun tr examples m (fst (fullPass tr examples p))" by simp
      from Suc.IH [OF this] Suc show ?thesis by (simp add: failuresOfPass_Suc)
    qed
  qed
qed

lemma passesRun_last:
  "passesRun tr examples m p < m \<Longrightarrow>
     0 < passesRun tr examples m p \<and>
     failuresOfPass tr examples (passesRun tr examples m p - 1) p = 0"
proof (induction m arbitrary: p)
  case 0
  then show ?case by simp
next
  case (Suc m)
  show ?case
  proof (cases "snd (fullPass tr examples p) = 0")
    case True
    then show ?thesis by (simp add: failuresOfPass_0)
  next
    case False
    with Suc.prems have lt: "passesRun tr examples m (fst (fullPass tr examples p)) < m" by simp
    from Suc.IH [OF lt] False show ?thesis
      by (cases "passesRun tr examples m (fst (fullPass tr examples p))")
         (simp_all add: failuresOfPass_Suc)
  qed
qed

lemma passesRun_converged:
  "Suc k < m \<Longrightarrow> failuresOfPass tr examples k p = 0 \<Longrightarrow> passesRun tr examples m p < m"
proof (induction m arbitrary: k p)
  case 0
  then show ?case by simp
next
  case (Suc m)
  show ?case
  proof (cases "snd (fullPass tr examples p) = 0")
    case True
    with Suc.prems show ?thesis by simp
  next
    case False
    with Suc.prems(2) obtain k' where k: "k = Suc k'"
      by (cases k) (auto simp add: failuresOfPass_0)
    with Suc.prems have "Suc k' < m"
      and "failuresOfPass tr examples k' (fst (fullPass tr examples p)) = 0"
      by (simp_all add: failuresOfPass_Suc)
    from Suc.IH [OF this] False show ?thesis by simp
  qed
qed

lemma passesRun_contract:
  assumes "0 \<le> M"
  shows "stopsAtFirstCleanPass tr examples M p (passesRun tr examples (nat M) p) \<and>
         (int (passesRun tr examples (nat M) p) \<noteq> M) = convergedWithin tr examples M p"
proof -
  let ?n = "passesRun tr examples (nat M) p"
  have le: "int ?n \<le> M" using passesRun_le [of tr examples "nat M" p] assms by linarith
  have a: "stopsAtFirstCleanPass tr examples M p ?n"
    unfolding stopsAtFirstCleanPass_def
  proof (intro conjI allI impI)
    show "int ?n \<le> M" by (rule le)
  next
    fix k assume "Suc k < ?n"
    then show "failuresOfPass tr examples k p \<noteq> 0"
      by (rule passesRun_earlier)
  next
    assume "int ?n < M"
    then have "?n < nat M" by linarith
    from passesRun_last [OF this] show "0 < ?n" by simp
  next
    assume "int ?n < M"
    then have "?n < nat M" by linarith
    from passesRun_last [OF this]
    show "failuresOfPass tr examples (?n - 1) p = 0" by simp
  qed
  have b: "(int ?n \<noteq> M) = convergedWithin tr examples M p"
  proof
    assume "int ?n \<noteq> M"
    with le have lt: "?n < nat M" by linarith
    from passesRun_last [OF lt] obtain j where j: "?n = Suc j"
      and z: "failuresOfPass tr examples j p = 0"
      by (cases ?n) auto
    from j lt have "int (Suc j) < M" by linarith
    with z show "convergedWithin tr examples M p"
      unfolding convergedWithin_def by blast
  next
    assume "convergedWithin tr examples M p"
    then obtain k where k: "int (Suc k) < M"
      and z: "failuresOfPass tr examples k p = 0"
      unfolding convergedWithin_def by blast
    from k have "Suc k < nat M" by linarith
    from passesRun_converged [OF this z] show "int ?n \<noteq> M" by linarith
  qed
  from a b show ?thesis ..
qed

text \<open>The number of passes of a run is determined by the failures of the passes.\<close>

lemma stopsAtFirstCleanPass_unique:
  assumes a: "stopsAtFirstCleanPass tr examples M p n"
    and b: "stopsAtFirstCleanPass tr examples M p n'"
  shows "n = n'"
proof -
  have less: "\<not> i < j"
    if i: "stopsAtFirstCleanPass tr examples M p i"
      and j: "stopsAtFirstCleanPass tr examples M p j" for i j
  proof
    assume lt: "i < j"
    from j have "int j \<le> M" by (simp add: stopsAtFirstCleanPass_def)
    with lt have "int i < M" by linarith
    with i have pos: "0 < i" and z: "failuresOfPass tr examples (i - 1) p = 0"
      by (simp_all add: stopsAtFirstCleanPass_def)
    from pos lt have "Suc (i - 1) < j" by simp
    with j have "failuresOfPass tr examples (i - 1) p \<noteq> 0"
      unfolding stopsAtFirstCleanPass_def by blast
    with z show False by simp
  qed
  from less [OF a b] less [OF b a] show ?thesis by simp
qed



text \<open>
  Without a callback, a call that enters the loop does not return: the first pass throws,
  or the call of \<^verbatim>\<open>undefined\<close> after it does.
\<close>

lemma trainSetWith_no_callback:
  assumes len: "length xs = length es" and M: "0 < M"
  shows "\<exists>err p'. trainSetWith tr p xs es M None c = (Inl err, p', c)"
proof (cases "trainPass tr (zip xs es) 0 p")
  case (Pair r p')
  with len M show ?thesis
    by (cases r) (simp_all add: trainSetWith_def trainSetLoop.simps)
qed

lemma train_clean:
  assumes dims: "list_all (\<lambda>x. int (length x) = d) xs"
  shows "inputDimension q = d \<Longrightarrow> (x, e) \<in> set (zip xs es) \<Longrightarrow>
           \<exists>b q'. train nan q x e = (Inr b, q') \<and> inputDimension q' = d"
proof -
  assume q: "inputDimension q = d" and m: "(x, e) \<in> set (zip xs es)"
  from m have "x \<in> set xs" by (rule set_zip_leftD)
  with dims q have "int (length x) = inputDimension q" by (simp add: list_all_iff)
  from train_returns [OF this, of nan e] q show ?thesis by auto
qed

lemma m_train_clean:
  assumes dims: "list_all (\<lambda>x. int (length x) = d) xs"
    and classes: "list_all (\<lambda>e. 0 \<le> e \<and> e < int n) es" and n: "0 < n"
  shows "m_inputDimension q = d \<and> classCount q = n \<Longrightarrow> (x, e) \<in> set (zip xs es) \<Longrightarrow>
           \<exists>b q'. m_train nan q x e = (Inr b, q') \<and> (m_inputDimension q' = d \<and> classCount q' = n)"
proof -
  assume q: "m_inputDimension q = d \<and> classCount q = n"
    and m: "(x, e) \<in> set (zip xs es)"
  from m have "x \<in> set xs" by (rule set_zip_leftD)
  with dims q have l: "int (length x) = m_inputDimension q" by (simp add: list_all_iff)
  from m have "e \<in> set es" by (rule set_zip_rightD)
  with classes q have e: "0 \<le> e" "e < int (classCount q)" by (simp_all add: list_all_iff)
  from n q have c: "0 < classCount q" by simp
  from m_train_returns [OF c l e, of nan] q show ?thesis by auto
qed




section \<open>The calls of the callback\<close>

text \<open>
  The calls of the callback, seen by the observer that records its arguments: one call
  after each pass of the run, in order, with the failures of the pass, the length of the
  input set and the index of the pass counted from zero.
\<close>

lemma reports_Suc:
  "map (\<lambda>k. (failuresOfPass tr examples k p, setSize, it + int k)) [0..<Suc n] =
     (snd (fullPass tr examples p), setSize, it) #
     map (\<lambda>k. (failuresOfPass tr examples k (fst (fullPass tr examples p)), setSize,
                 it + 1 + int k)) [0..<n]"
proof -
  have "[0..<Suc n] = 0 # map Suc [0..<n]"
    by (simp only: upt_conv_Cons [of 0 "Suc n"] map_Suc_upt zero_less_Suc)
  then show ?thesis
    by (simp only: list.map map_map o_def failuresOfPass_0 failuresOfPass_Suc) simp
qed

lemma trainSetLoop_reports:
  assumes clean: "\<And>q x e. I q \<Longrightarrow> (x, e) \<in> set (zip xs es) \<Longrightarrow>
                    \<exists>b q'. tr q x e = (Inr b, q') \<and> I q'"
  shows "nat (M - it) = m \<Longrightarrow> I p \<Longrightarrow>
     trainSetLoop tr (Some record_call) xs es M nf it p calls =
       (Inr (it + int (if nf = 0 then 0 else passesRun tr (zip xs es) m p) \<noteq> M),
        afterPasses tr (zip xs es) (if nf = 0 then 0 else passesRun tr (zip xs es) m p) p,
        calls @ map (\<lambda>k. (failuresOfPass tr (zip xs es) k p, int (length xs), it + int k))
                  [0..<(if nf = 0 then 0 else passesRun tr (zip xs es) m p)])"
proof (induction m arbitrary: it nf p calls)
  case 0
  then have "\<not> it < M" by simp
  then have "trainSetLoop tr (Some record_call) xs es M nf it p calls = (Inr (it \<noteq> M), p, calls)"
    by (simp add: trainSetLoop.simps)
  then show ?case by simp
next
  case (Suc m)
  then have lt: "it < M" and m: "nat (M - (it + 1)) = m" by linarith+
  show ?case
  proof (cases "nf = 0")
    case True
    then have "trainSetLoop tr (Some record_call) xs es M nf it p calls =
                 (Inr (it \<noteq> M), p, calls)"
      by (simp add: trainSetLoop.simps)
    with True show ?thesis by simp
  next
    case False
    let ?ex = "zip xs es"
    let ?p' = "fst (fullPass tr ?ex p)"
    let ?failed = "snd (fullPass tr ?ex p)"
    let ?size = "int (length xs)"
    from pass_ok [of I ?ex tr p, OF clean Suc.prems(2)]
    have tp: "trainPass tr ?ex 0 p = (Inr ?failed, ?p')" and inv: "I ?p'" by simp_all
    let ?calls' = "calls @ [(?failed, ?size, it)]"
    let ?n' = "if ?failed = 0 then 0 else passesRun tr ?ex m ?p'"
    from False lt tp
    have step: "trainSetLoop tr (Some record_call) xs es M nf it p calls =
                trainSetLoop tr (Some record_call) xs es M ?failed (it + 1) ?p' ?calls'"
      by (subst trainSetLoop.simps) (simp add: record_call_def)
    note run = Suc.IH [OF m inv, of ?failed ?calls']
    have n: "passesRun tr ?ex (Suc m) p = Suc ?n'" by simp
    have e: "it + int (Suc ?n') = it + 1 + int ?n'" by simp
    have a1: "afterPasses tr ?ex (Suc ?n') p = afterPasses tr ?ex ?n' ?p'"
      by (simp only: afterPasses.simps afterPasses_shift)
    have a2: "calls @ map (\<lambda>k. (failuresOfPass tr ?ex k p, ?size, it + int k)) [0..<Suc ?n'] =
              ?calls' @ map (\<lambda>k. (failuresOfPass tr ?ex k ?p', ?size, it + 1 + int k)) [0..<?n']"
      by (simp only: reports_Suc append_Cons append_Nil append_assoc)
    show ?thesis
      unfolding if_not_P [OF False] n e a1 a2 by (rule trans [OF step run])
  qed
qed

lemma trainSetWith_reports:
  assumes clean: "\<And>q x e. I q \<Longrightarrow> (x, e) \<in> set (zip xs es) \<Longrightarrow>
                    \<exists>b q'. tr q x e = (Inr b, q') \<and> I q'"
    and p: "I p" and len: "length xs = length es" and M: "0 \<le> M"
  shows "\<exists>n. trainSetWith tr p xs es M (Some record_call) [] =
                (Inr (convergedWithin tr (zip xs es) M p), afterPasses tr (zip xs es) n p,
                 map (\<lambda>k. (failuresOfPass tr (zip xs es) k p, int (length xs), int k)) [0..<n]) \<and>
              stopsAtFirstCleanPass tr (zip xs es) M p n"
proof -
  have m: "nat (M - 0) = nat M" by simp
  have nf: "(- 1 :: int) \<noteq> 0" by simp
  let ?n = "passesRun tr (zip xs es) (nat M) p"
  from trainSetLoop_reports [of I xs es tr M 0 "nat M" p "- 1" "[]", OF clean m p]
  have run: "trainSetLoop tr (Some record_call) xs es M (- 1) 0 p [] =
            (Inr (0 + int ?n \<noteq> M), afterPasses tr (zip xs es) ?n p,
             [] @ map (\<lambda>k. (failuresOfPass tr (zip xs es) k p, int (length xs), 0 + int k))
                    [0..<?n])"
    unfolding if_not_P [OF nf] .
  from passesRun_contract [OF M, of tr "zip xs es" p]
  have st: "stopsAtFirstCleanPass tr (zip xs es) M p ?n"
    and cv: "(int ?n \<noteq> M) = convergedWithin tr (zip xs es) M p" by simp_all
  from run len cv have "trainSetWith tr p xs es M (Some record_call) [] =
            (Inr (convergedWithin tr (zip xs es) M p), afterPasses tr (zip xs es) ?n p,
             map (\<lambda>k. (failuresOfPass tr (zip xs es) k p, int (length xs), int k)) [0..<?n])"
    by (simp add: trainSetWith_def)
  with st show ?thesis by (intro exI [of _ ?n] conjI)
qed

lemma trainSet_reports_each_pass:
  fixes p :: "('a :: {zero_neq_one, plus, minus, times, ord}) perceptron"
    and q :: "('b :: {zero, plus, minus, times, ord}) multiPerceptron"
  assumes "0 \<le> maxIterations"
  shows
  "(length inputSet = length expectedSet \<and>
    list_all (\<lambda>x. int (length x) = inputDimension p) inputSet \<longrightarrow>
      (\<exists>n. BinaryPerceptron_trainSet nan p inputSet expectedSet maxIterations
               (Some record_call) [] =
               (Inr (convergedWithin (train nan) (zip inputSet expectedSet) maxIterations p),
                afterPasses (train nan) (zip inputSet expectedSet) n p,
                map (\<lambda>k. (failuresOfPass (train nan) (zip inputSet expectedSet) k p,
                           int (length inputSet), int k)) [0..<n]) \<and>
             stopsAtFirstCleanPass (train nan) (zip inputSet expectedSet) maxIterations p n)) \<and>
   (length m_inputSet = length expectedClasses \<and>
    list_all (\<lambda>x. int (length x) = m_inputDimension q) m_inputSet \<and> 0 < classCount q \<and>
    list_all (\<lambda>e. 0 \<le> e \<and> e < int (classCount q)) expectedClasses \<longrightarrow>
      (\<exists>n. MultiPerceptron_trainSet m_nan q m_inputSet expectedClasses maxIterations
               (Some record_call) [] =
               (Inr (convergedWithin (m_train m_nan) (zip m_inputSet expectedClasses)
                       maxIterations q),
                afterPasses (m_train m_nan) (zip m_inputSet expectedClasses) n q,
                map (\<lambda>k. (failuresOfPass (m_train m_nan) (zip m_inputSet expectedClasses) k q,
                           int (length m_inputSet), int k)) [0..<n]) \<and>
             stopsAtFirstCleanPass (m_train m_nan) (zip m_inputSet expectedClasses)
               maxIterations q n))"
proof (rule conjI; rule impI)
  assume a: "length inputSet = length expectedSet \<and>
    list_all (\<lambda>x. int (length x) = inputDimension p) inputSet"
  then have dims: "list_all (\<lambda>x. int (length x) = inputDimension p) inputSet"
    and len: "length inputSet = length expectedSet" by simp_all
  have inv: "inputDimension p = inputDimension p" by simp
  show "\<exists>n. BinaryPerceptron_trainSet nan p inputSet expectedSet maxIterations
               (Some record_call) [] =
               (Inr (convergedWithin (train nan) (zip inputSet expectedSet) maxIterations p),
                afterPasses (train nan) (zip inputSet expectedSet) n p,
                map (\<lambda>k. (failuresOfPass (train nan) (zip inputSet expectedSet) k p,
                           int (length inputSet), int k)) [0..<n]) \<and>
             stopsAtFirstCleanPass (train nan) (zip inputSet expectedSet) maxIterations p n"
    unfolding BinaryPerceptron_trainSet_def
    by (rule trainSetWith_reports
          [of "\<lambda>q. inputDimension q = inputDimension p",
            OF train_clean [OF dims] inv len assms])
next
  assume a: "length m_inputSet = length expectedClasses \<and>
    list_all (\<lambda>x. int (length x) = m_inputDimension q) m_inputSet \<and> 0 < classCount q \<and>
    list_all (\<lambda>e. 0 \<le> e \<and> e < int (classCount q)) expectedClasses"
  then have dims: "list_all (\<lambda>x. int (length x) = m_inputDimension q) m_inputSet"
    and classes: "list_all (\<lambda>e. 0 \<le> e \<and> e < int (classCount q)) expectedClasses"
    and n: "0 < classCount q"
    and len: "length m_inputSet = length expectedClasses" by simp_all
  have inv: "m_inputDimension q = m_inputDimension q \<and> classCount q = classCount q" by simp
  show "\<exists>n. MultiPerceptron_trainSet m_nan q m_inputSet expectedClasses maxIterations
               (Some record_call) [] =
               (Inr (convergedWithin (m_train m_nan) (zip m_inputSet expectedClasses)
                       maxIterations q),
                afterPasses (m_train m_nan) (zip m_inputSet expectedClasses) n q,
                map (\<lambda>k. (failuresOfPass (m_train m_nan) (zip m_inputSet expectedClasses) k q,
                           int (length m_inputSet), int k)) [0..<n]) \<and>
             stopsAtFirstCleanPass (m_train m_nan) (zip m_inputSet expectedClasses)
               maxIterations q n"
    unfolding MultiPerceptron_trainSet_def
    by (rule trainSetWith_reports
          [of "\<lambda>r. m_inputDimension r = m_inputDimension q \<and> classCount r = classCount q",
            OF m_train_clean [OF dims classes n] inv len assms])
qed

section \<open>trainSet without a callback\<close>

text \<open>
  Claim C3. \<^verbatim>\<open>trainSet\<close> of \<^verbatim>\<open>BinaryPerceptron\<close> and of \<^verbatim>\<open>MultiPerceptron\<close> is to
  call the callback once after each pass with the failures of the pass, the length of the
  input set and the index of the pass, and to work as well without a callback, as the
  documented call with three arguments has none. The code calls
  \<^verbatim>\<open>callback(numberFailed, inputSet.length, iteration)\<close> without a test. On the
  examples \<open>[1]\<close>, expected true, and \<open>[2]\<close>, expected false, from
  \<^verbatim>\<open>new BinaryPerceptron(1, 1, 0)\<close> with a budget of 10: without a callback the first
  pass makes its two updates and the call throws a TypeError, the weights being
  \<open>[0, -1]\<close>; with a callback that records its arguments the call returns true after
  six passes, with the weights \<open>[2, -1]\<close> and one record for each pass. The same
  happens with \<^verbatim>\<open>new MultiPerceptron(1, 2, 1)\<close> on \<open>[1]\<close>, expected class 1, and
  \<open>[2]\<close>, expected class 0.
\<close>

theorem C3_missing_callback_throws:
  "BinaryPerceptron_trainSet NaN (BinaryPerceptron 1 (Finite 1) (Finite 0))
       [[Finite 1], [Finite 2]] [True, False] 10 None () =
     (Inl TypeError,
      \<lparr>inputs = [Finite 1, Finite 2], inputWeights = [Finite 0, Finite (- 1)],
         learningRate = Finite 1, threshold = Finite 0\<rparr>, ()) \<and>
   BinaryPerceptron_trainSet NaN (BinaryPerceptron 1 (Finite 1) (Finite 0))
       [[Finite 1], [Finite 2]] [True, False] 10 (Some record_call) [] =
     (Inr True,
      \<lparr>inputs = [Finite 1, Finite 2], inputWeights = [Finite 2, Finite (- 1)],
         learningRate = Finite 1, threshold = Finite 0\<rparr>,
      [(2, 2, 0), (2, 2, 1), (1, 2, 2), (2, 2, 3), (1, 2, 4), (0, 2, 5)]) \<and>
   fst (MultiPerceptron_trainSet NaN (MultiPerceptron 1 2 (Finite 1))
       [[Finite 1], [Finite 2]] [1, 0] 10 None ()) = Inl TypeError \<and>
   m_rows (fst (snd (MultiPerceptron_trainSet NaN (MultiPerceptron 1 2 (Finite 1))
       [[Finite 1], [Finite 2]] [1, 0] 10 None ()))) =
     [[Finite 0, Finite 1], [Finite 0, Finite (- 1)]] \<and>
   fst (MultiPerceptron_trainSet NaN (MultiPerceptron 1 2 (Finite 1))
       [[Finite 1], [Finite 2]] [1, 0] 10 (Some record_call) []) = Inr True \<and>
   m_rows (fst (snd (MultiPerceptron_trainSet NaN (MultiPerceptron 1 2 (Finite 1))
       [[Finite 1], [Finite 2]] [1, 0] 10 (Some record_call) []))) =
     [[Finite (- 2), Finite 1], [Finite 2, Finite (- 1)]]"
proof -
  have mfresh: "MultiPerceptron 1 2 (Finite 1) =
      \<lparr>m_inputs = [Finite 1, Finite 0], m_inputWeights = [0, 1],
         m_heap = (\<lambda>a. [Finite 0, Finite 0]), m_learningRate = Finite 1\<rparr>"
    by (simp add: MultiPerceptron_def zero_jsnum_def one_jsnum_def eval_nat_numeral upt_rec)
  have bin: "BinaryPerceptron_trainSet NaN (BinaryPerceptron 1 (Finite 1) (Finite 0))
       [[Finite 1], [Finite 2]] [True, False] 10 None () =
     (Inl TypeError,
      \<lparr>inputs = [Finite 1, Finite 2], inputWeights = [Finite 0, Finite (- 1)],
         learningRate = Finite 1, threshold = Finite 0\<rparr>, ()) \<and>
   BinaryPerceptron_trainSet NaN (BinaryPerceptron 1 (Finite 1) (Finite 0))
       [[Finite 1], [Finite 2]] [True, False] 10 (Some record_call) [] =
     (Inr True,
      \<lparr>inputs = [Finite 1, Finite 2], inputWeights = [Finite 2, Finite (- 1)],
         learningRate = Finite 1, threshold = Finite 0\<rparr>,
      [(2, 2, 0), (2, 2, 1), (1, 2, 2), (2, 2, 3), (1, 2, 4), (0, 2, 5)])"
    by (simp add: BinaryPerceptron_trainSet_def trainSetWith_def trainSetLoop.simps
        BinaryPerceptron_def train_def setInput_def record_call_def Let_def
        zero_jsnum_def one_jsnum_def minus_jsnum_def)
  have mul: "fst (MultiPerceptron_trainSet NaN (MultiPerceptron 1 2 (Finite 1))
       [[Finite 1], [Finite 2]] [1, 0] 10 None ()) = Inl TypeError \<and>
   m_rows (fst (snd (MultiPerceptron_trainSet NaN (MultiPerceptron 1 2 (Finite 1))
       [[Finite 1], [Finite 2]] [1, 0] 10 None ()))) =
     [[Finite 0, Finite 1], [Finite 0, Finite (- 1)]] \<and>
   fst (MultiPerceptron_trainSet NaN (MultiPerceptron 1 2 (Finite 1))
       [[Finite 1], [Finite 2]] [1, 0] 10 (Some record_call) []) = Inr True \<and>
   m_rows (fst (snd (MultiPerceptron_trainSet NaN (MultiPerceptron 1 2 (Finite 1))
       [[Finite 1], [Finite 2]] [1, 0] 10 (Some record_call) []))) =
     [[Finite (- 2), Finite 1], [Finite 2, Finite (- 1)]]"
    unfolding mfresh
    by (simp add: MultiPerceptron_trainSet_def trainSetWith_def trainSetLoop.simps
        m_train_def setInput_def maxScoreClassification_def m_getScore_def
        encourageWeights_def punishWeights_def record_call_def m_rows_def Let_def
        zero_jsnum_def minus_jsnum_def)
  from bin mul show ?thesis by (intro conjI) simp_all
qed

end
